theory Spec2Isabelle
  imports Complex_Main
begin

section \<open>Dense matrices\<close>

text \<open>
  The program works on fixed-size dense matrices (\<^verbatim>\<open>Eigen::Matrix<double, R, C>\<close>).
  A matrix is the list of its rows; a vector (\<^verbatim>\<open>StateVector\<close>, \<^verbatim>\<open>ControlVector\<close>)
  is a one-column matrix, as it is for Eigen.  The operations are written over an
  arbitrary scalar type, so that they can be read over the reals (the usual
  idealisation of \<^verbatim>\<open>double\<close>) and over a scalar type with the special values of
  IEEE arithmetic.
\<close>

type_synonym 'a matrix = "'a list list"

definition mat_dim :: "nat \<Rightarrow> nat \<Rightarrow> 'a matrix \<Rightarrow> bool" where
  "mat_dim r c M = (length M = r \<and> list_all (\<lambda>row. length row = c) M)"

definition coeff :: "'a matrix \<Rightarrow> nat \<Rightarrow> nat \<Rightarrow> 'a" where
  "coeff M i j = M ! i ! j"

definition block :: "'a matrix \<Rightarrow> nat \<Rightarrow> nat \<Rightarrow> nat \<Rightarrow> nat \<Rightarrow> 'a matrix" where
  \<comment> \<open>\<^verbatim>\<open>M.block<nr, nc>(r, c)\<close> read as a value\<close>
  "block M r c nr nc = map (\<lambda>row. take nc (drop c row)) (take nr (drop r M))"

definition set_block :: "'a matrix \<Rightarrow> nat \<Rightarrow> nat \<Rightarrow> 'a matrix \<Rightarrow> 'a matrix" where
  \<comment> \<open>\<^verbatim>\<open>M.block<nr, nc>(r, c) = B\<close>, the dimensions being those of \<open>B\<close>\<close>
  "set_block M r c B =
     take r M
     @ map2 (\<lambda>row b. take c row @ b @ drop (c + length b) row) (take (length B) (drop r M)) B
     @ drop (r + length B) M"

definition col :: "'a matrix \<Rightarrow> nat \<Rightarrow> 'a matrix" where
  "col M j = block M 0 j (length M) 1"

definition set_col :: "'a matrix \<Rightarrow> nat \<Rightarrow> 'a matrix \<Rightarrow> 'a matrix" where
  "set_col M j v = set_block M 0 j v"

definition zero_mat :: "nat \<Rightarrow> nat \<Rightarrow> 'a::zero matrix" where
  "zero_mat r c = replicate r (replicate c 0)"

definition identity_mat :: "nat \<Rightarrow> 'a::{zero,one} matrix" where
  "identity_mat n = map (\<lambda>i. map (\<lambda>j. if i = j then 1 else 0) [0..<n]) [0..<n]"

definition mat_add :: "'a::plus matrix \<Rightarrow> 'a matrix \<Rightarrow> 'a matrix" where
  "mat_add A B = map2 (map2 (+)) A B"

definition mat_sub :: "'a::minus matrix \<Rightarrow> 'a matrix \<Rightarrow> 'a matrix" where
  "mat_sub A B = map2 (map2 (-)) A B"

definition mat_neg :: "'a::uminus matrix \<Rightarrow> 'a matrix" where
  "mat_neg A = map (map uminus) A"

definition smult :: "'a::times \<Rightarrow> 'a matrix \<Rightarrow> 'a matrix" where
  \<comment> \<open>scalar times matrix, \<^verbatim>\<open>s * M\<close>\<close>
  "smult s A = map (map (\<lambda>a. s * a)) A"

definition mult_s :: "'a::times matrix \<Rightarrow> 'a \<Rightarrow> 'a matrix" where
  \<comment> \<open>matrix times scalar, \<^verbatim>\<open>M * s\<close>\<close>
  "mult_s A s = map (map (\<lambda>a. a * s)) A"

definition dot :: "'a::{zero,plus,times} list \<Rightarrow> 'a list \<Rightarrow> 'a" where
  "dot xs ys = foldr (\<lambda>(a, b) acc. a * b + acc) (zip xs ys) 0"

definition column :: "'a matrix \<Rightarrow> nat \<Rightarrow> 'a list" where
  "column M j = map (\<lambda>row. row ! j) M"

definition mat_mul :: "nat \<Rightarrow> 'a::{zero,plus,times} matrix \<Rightarrow> 'a matrix \<Rightarrow> 'a matrix" where
  \<comment> \<open>\<^verbatim>\<open>A * B\<close>; the number \<open>c\<close> of columns of the product is fixed by the static
      type of \<open>B\<close>\<close>
  "mat_mul c A B = map (\<lambda>row. map (\<lambda>j. dot row (column B j)) [0..<c]) A"


section \<open>Scalars with the special values of IEEE arithmetic\<close>

text \<open>
  \<^verbatim>\<open>double\<close> with its infinities and its NaN, rounding and the sign of zero left out:
  a finite value is a real number, a division of a nonzero finite value by zero is an
  infinity, and \<open>0/0\<close>, \<open>0 * inf\<close> and \<open>inf - inf\<close> are NaN.  No operation raises.
\<close>

datatype double = Fin real | PInf | MInf | NaN

fun double_uminus :: "double \<Rightarrow> double" where
  "double_uminus (Fin a) = Fin (- a)"
| "double_uminus PInf = MInf"
| "double_uminus MInf = PInf"
| "double_uminus NaN = NaN"

fun double_plus :: "double \<Rightarrow> double \<Rightarrow> double" where
  "double_plus NaN _ = NaN"
| "double_plus _ NaN = NaN"
| "double_plus (Fin a) (Fin b) = Fin (a + b)"
| "double_plus PInf MInf = NaN"
| "double_plus MInf PInf = NaN"
| "double_plus PInf _ = PInf"
| "double_plus MInf _ = MInf"
| "double_plus (Fin a) PInf = PInf"
| "double_plus (Fin a) MInf = MInf"

definition signed_inf :: "bool \<Rightarrow> double" where
  "signed_inf positive = (if positive then PInf else MInf)"

fun double_times :: "double \<Rightarrow> double \<Rightarrow> double" where
  "double_times NaN _ = NaN"
| "double_times _ NaN = NaN"
| "double_times (Fin a) (Fin b) = Fin (a * b)"
| "double_times (Fin a) PInf = (if a = 0 then NaN else signed_inf (0 < a))"
| "double_times (Fin a) MInf = (if a = 0 then NaN else signed_inf (a < 0))"
| "double_times PInf (Fin b) = (if b = 0 then NaN else signed_inf (0 < b))"
| "double_times MInf (Fin b) = (if b = 0 then NaN else signed_inf (b < 0))"
| "double_times PInf PInf = PInf"
| "double_times PInf MInf = MInf"
| "double_times MInf PInf = MInf"
| "double_times MInf MInf = PInf"

fun double_divide :: "double \<Rightarrow> double \<Rightarrow> double" where
  "double_divide NaN _ = NaN"
| "double_divide _ NaN = NaN"
| "double_divide (Fin a) (Fin b) =
     (if b = 0 then (if a = 0 then NaN else signed_inf (0 < a)) else Fin (a / b))"
| "double_divide (Fin a) PInf = Fin 0"
| "double_divide (Fin a) MInf = Fin 0"
| "double_divide PInf (Fin b) = signed_inf (0 \<le> b)"
| "double_divide MInf (Fin b) = signed_inf (b < 0)"
| "double_divide PInf PInf = NaN"
| "double_divide PInf MInf = NaN"
| "double_divide MInf PInf = NaN"
| "double_divide MInf MInf = NaN"

instantiation double :: "{zero,one,plus,minus,uminus,times,inverse}"
begin

definition zero_double :: double where "zero_double = Fin 0"
definition one_double :: double where "one_double = Fin 1"
definition plus_double :: "double \<Rightarrow> double \<Rightarrow> double" where "plus_double = double_plus"
definition uminus_double :: "double \<Rightarrow> double" where "uminus_double = double_uminus"
definition minus_double :: "double \<Rightarrow> double \<Rightarrow> double" where
  "minus_double a b = double_plus a (double_uminus b)"
definition times_double :: "double \<Rightarrow> double \<Rightarrow> double" where "times_double = double_times"
definition divide_double :: "double \<Rightarrow> double \<Rightarrow> double" where "divide_double = double_divide"
definition inverse_double :: "double \<Rightarrow> double" where
  "inverse_double a = double_divide (Fin 1) a"

instance ..

end

definition is_finite :: "double \<Rightarrow> bool" where
  "is_finite d = (case d of Fin _ \<Rightarrow> True | _ \<Rightarrow> False)"


section \<open>The variables of the main program\<close>

text \<open>
  The numeric local variables of \<^verbatim>\<open>main\<close> that the optimization problem refers to
  and that the loop updates: the reference trajectory \<^verbatim>\<open>X\<close>, \<^verbatim>\<open>U\<close>, the total time
  \<^verbatim>\<open>sigma\<close> (here \<open>main_X\<close>, \<open>main_U\<close>, \<open>main_sigma\<close>) and the five arrays of the
  discretization, one entry per interval.
\<close>

record locals =
  main_X :: "real matrix"
  main_U :: "real matrix"
  main_sigma :: real
  A_bar :: "real matrix list"
  B_bar :: "real matrix list"
  C_bar :: "real matrix list"
  Sigma_bar :: "real matrix list"
  z_bar :: "real matrix list"


section \<open>The optimization problem\<close>

text \<open>
  Modelled from the spec: \<^verbatim>\<open>EcosWrapper.hpp\<close> (the expressions of
  \<^verbatim>\<open>optimization_problem\<close> and the solver wrapper) is not part of the sources.  An
  expression is a sum of terms, each a parameter times a variable or a parameter alone;
  a parameter is a constant, a pointer to a \<^verbatim>\<open>double\<close> of the main program
  (\<^verbatim>\<open>Parameter(&param_value)\<close>), or a callback evaluated when the value is needed
  (\<^verbatim>\<open>Parameter(callback)\<close>).  The wrapper records the declared tensor variables, the
  constraints, the terms of the objective and whether the structure has been compiled.
\<close>

datatype Variable = Variable string "nat list"

datatype address =
    A_bar_at nat nat nat
  | B_bar_at nat nat nat
  | C_bar_at nat nat nat
  | Sigma_bar_at nat nat nat
  | z_bar_at nat nat nat

datatype Parameter = Constant real | Pointer address | Callback "locals \<Rightarrow> real"

type_synonym AffineTerm = "Parameter \<times> Variable option"

type_synonym AffineExpression = "AffineTerm list"

datatype Constraint =
    EqualityConstraint AffineExpression
  | SecondOrderConeConstraint "AffineExpression list" AffineExpression

record EcosWrapper =
  tensor_variables :: "(string \<times> nat list) list"
  constraints :: "Constraint list"
  costs :: "AffineExpression list"
  compiled :: bool

definition EcosWrapper_new :: EcosWrapper where
  "EcosWrapper_new = \<lparr>tensor_variables = [], constraints = [], costs = [], compiled = False\<rparr>"

definition create_tensor_variable :: "string \<Rightarrow> nat list \<Rightarrow> EcosWrapper \<Rightarrow> EcosWrapper" where
  "create_tensor_variable name dims s = s\<lparr>tensor_variables := tensor_variables s @ [(name, dims)]\<rparr>"

definition add_constraint :: "Constraint \<Rightarrow> EcosWrapper \<Rightarrow> EcosWrapper" where
  "add_constraint c s = s\<lparr>constraints := constraints s @ [c]\<rparr>"

definition add_minimization_term :: "AffineExpression \<Rightarrow> EcosWrapper \<Rightarrow> EcosWrapper" where
  "add_minimization_term e s = s\<lparr>costs := costs s @ [e]\<rparr>"

definition compile_problem_structure :: "EcosWrapper \<Rightarrow> EcosWrapper" where
  "compile_problem_structure s = s\<lparr>compiled := True\<rparr>"

definition var :: "string \<Rightarrow> nat list \<Rightarrow> Variable" where
  \<comment> \<open>\<^verbatim>\<open>solver.get_variable(name, indices)\<close>\<close>
  "var name indices = Variable name indices"

definition param :: "address \<Rightarrow> Parameter" where
  "param a = Pointer a"

definition param_fn :: "(locals \<Rightarrow> real) \<Rightarrow> Parameter" where
  "param_fn callback = Callback callback"

definition times_var :: "Parameter \<Rightarrow> Variable \<Rightarrow> AffineExpression" where
  \<comment> \<open>\<^verbatim>\<open>parameter * variable\<close>\<close>
  "times_var p v = [(p, Some v)]"

definition constant_term :: "Parameter \<Rightarrow> AffineExpression" where
  \<comment> \<open>a parameter used as an expression\<close>
  "constant_term p = [(p, None)]"

definition plus_expr :: "AffineExpression \<Rightarrow> AffineExpression \<Rightarrow> AffineExpression" where
  \<comment> \<open>\<^verbatim>\<open>expression + expression\<close>\<close>
  "plus_expr a b = a @ b"

text \<open>The value of a parameter is read in the variables of the main program.\<close>

fun deref :: "locals \<Rightarrow> address \<Rightarrow> real" where
  "deref l (A_bar_at k i j) = coeff (A_bar l ! k) i j"
| "deref l (B_bar_at k i j) = coeff (B_bar l ! k) i j"
| "deref l (C_bar_at k i j) = coeff (C_bar l ! k) i j"
| "deref l (Sigma_bar_at k i j) = coeff (Sigma_bar l ! k) i j"
| "deref l (z_bar_at k i j) = coeff (z_bar l ! k) i j"

fun get_value :: "locals \<Rightarrow> Parameter \<Rightarrow> real" where
  "get_value l (Constant c) = c"
| "get_value l (Pointer a) = deref l a"
| "get_value l (Callback f) = f l"

text \<open>
  The meaning of an expression and of a constraint, at the values \<open>l\<close> of the program's
  variables and at an assignment \<open>x\<close> of the optimization variables.
\<close>

type_synonym assignment = "string \<Rightarrow> nat list \<Rightarrow> real"

fun eval_term :: "locals \<Rightarrow> assignment \<Rightarrow> AffineTerm \<Rightarrow> real" where
  "eval_term l x (p, None) = get_value l p"
| "eval_term l x (p, Some (Variable name indices)) = get_value l p * x name indices"

definition eval_affine :: "locals \<Rightarrow> assignment \<Rightarrow> AffineExpression \<Rightarrow> real" where
  "eval_affine l x e = sum_list (map (eval_term l x) e)"

definition norm2_value :: "locals \<Rightarrow> assignment \<Rightarrow> AffineExpression list \<Rightarrow> real" where
  "norm2_value l x es = sqrt (sum_list (map (\<lambda>e. (eval_affine l x e)\<^sup>2) es))"

fun satisfied :: "locals \<Rightarrow> assignment \<Rightarrow> Constraint \<Rightarrow> bool" where
  "satisfied l x (EqualityConstraint e) = (eval_affine l x e = 0)"
| "satisfied l x (SecondOrderConeConstraint es rhs) = (norm2_value l x es \<le> eval_affine l x rhs)"

text \<open>
  Refreshing the parameters: every parameter is replaced by its current value.  This is
  what the solver is given when \<^verbatim>\<open>solve_problem\<close> is called.
\<close>

definition refresh_term :: "locals \<Rightarrow> AffineTerm \<Rightarrow> AffineTerm" where
  "refresh_term l t = (Constant (get_value l (fst t)), snd t)"

definition refresh_expr :: "locals \<Rightarrow> AffineExpression \<Rightarrow> AffineExpression" where
  "refresh_expr l e = map (refresh_term l) e"

fun refresh_constraint :: "locals \<Rightarrow> Constraint \<Rightarrow> Constraint" where
  "refresh_constraint l (EqualityConstraint e) = EqualityConstraint (refresh_expr l e)"
| "refresh_constraint l (SecondOrderConeConstraint es rhs) =
     SecondOrderConeConstraint (map (refresh_expr l) es) (refresh_expr l rhs)"

definition refresh :: "locals \<Rightarrow> EcosWrapper \<Rightarrow> EcosWrapper" where
  "refresh l s =
     s\<lparr>constraints := map (refresh_constraint l) (constraints s),
       costs := map (refresh_expr l) (costs s)\<rparr>"


text \<open>
  The structure of a problem: what is left of it when the values of the parameters are
  forgotten, that is the declared variables, and for every constraint and every term of
  the objective its kind and the variables of its terms in order.
\<close>

definition expr_structure :: "AffineExpression \<Rightarrow> Variable option list" where
  "expr_structure e = map snd e"

fun constraint_structure ::
  "Constraint \<Rightarrow> Variable option list + Variable option list list \<times> Variable option list" where
  "constraint_structure (EqualityConstraint e) = Inl (expr_structure e)"
| "constraint_structure (SecondOrderConeConstraint es rhs) =
     Inr (map expr_structure es, expr_structure rhs)"

definition problem_structure ::
  "EcosWrapper \<Rightarrow> (string \<times> nat list) list
     \<times> (Variable option list + Variable option list list \<times> Variable option list) list
     \<times> Variable option list list \<times> bool" where
  "problem_structure s =
     (tensor_variables s, map constraint_structure (constraints s),
      map expr_structure (costs s), compiled s)"


section \<open>The dynamics collaborator\<close>

text \<open>
  \<^verbatim>\<open>active_model.hpp\<close> is not part of the sources: the model is a parameter.  Its
  record holds what \<^verbatim>\<open>main.cpp\<close> uses of it: the two dimensions, the three functions
  of a state and a control, the initial guess of the trajectory (\<open>initialize\<close> is given
  the number of points and the two buffers) and of the total time, and the hook that
  adds the mission's constraints to the solver.
\<close>

record 'a Model =
  n_states :: nat
  n_inputs :: nat
  ode :: "'a matrix \<Rightarrow> 'a matrix \<Rightarrow> 'a matrix"
  state_jacobian :: "'a matrix \<Rightarrow> 'a matrix \<Rightarrow> 'a matrix"
  control_jacobian :: "'a matrix \<Rightarrow> 'a matrix \<Rightarrow> 'a matrix"
  initialize :: "nat \<Rightarrow> 'a matrix \<Rightarrow> 'a matrix \<Rightarrow> 'a matrix \<times> 'a matrix"
  total_time_guess :: 'a
  add_application_constraints :: "EcosWrapper \<Rightarrow> nat \<Rightarrow> EcosWrapper"


section \<open>The augmented ODE\<close>

text \<open>
  \<^verbatim>\<open>class DiscretizationODE\<close>: the members set by the constructor, and
  \<^verbatim>\<open>operator()\<close>, which writes the derivative of the augmented state \<open>V\<close> at time
  \<open>t\<close> into \<open>dVdt\<close>.  \<^verbatim>\<open>Phi_A_xi.inverse()\<close> is Eigen's routine; it is the
  parameter \<open>inverse_of\<close>.  The function has no failure path: it returns \<open>dVdt\<close>.
\<close>

record 'a DiscretizationODE =
  u_t :: "'a matrix"
  u_t1 :: "'a matrix"
  sigma :: 'a
  dt :: 'a
  model :: "'a Model"

definition n_V_states :: "'a Model \<Rightarrow> nat" where
  "n_V_states m = 3 + n_states m + 2 * n_inputs m"

definition DiscretizationODE_call ::
  "('a::{zero,plus,minus,uminus,times,inverse,one} matrix \<Rightarrow> 'a matrix) \<Rightarrow> 'a DiscretizationODE
     \<Rightarrow> 'a matrix \<Rightarrow> 'a matrix \<Rightarrow> 'a \<Rightarrow> 'a matrix" where
  "DiscretizationODE_call inverse_of self V dVdt t =
    (let n = n_states (model self); m = n_inputs (model self);
         x = col V 0;
         u = mat_add (u_t self) (smult (t / dt self) (mat_sub (u_t1 self) (u_t self)));
         alpha = t / dt self;
         beta = 1 - alpha;
         A_bar = smult (sigma self) (state_jacobian (model self) x u);
         B_bar = smult (sigma self) (control_jacobian (model self) x u);
         f = ode (model self) x u;
         Phi_A_xi = block V 0 1 n n;
         Phi_A_xi_inverse = inverse_of Phi_A_xi;
         cols = 0;
         dVdt = set_block dVdt 0 cols (smult (sigma self) f);
         cols = cols + 1;
         dVdt = set_block dVdt 0 cols (mat_mul n A_bar Phi_A_xi);
         cols = cols + n;
         dVdt = set_block dVdt 0 cols (mult_s (mat_mul m Phi_A_xi_inverse B_bar) alpha);
         cols = cols + m;
         dVdt = set_block dVdt 0 cols (mult_s (mat_mul m Phi_A_xi_inverse B_bar) beta);
         cols = cols + m;
         dVdt = set_block dVdt 0 cols (mat_mul 1 Phi_A_xi_inverse f);
         cols = cols + 1;
         dVdt = set_block dVdt 0 cols
                  (mat_mul 1 Phi_A_xi_inverse
                     (mat_sub (mat_mul 1 (mat_neg A_bar) x) (mat_mul 1 B_bar u)))
     in dVdt)"


definition inverse_1x1 :: "'a::{one,inverse} matrix \<Rightarrow> 'a matrix" where
  \<comment> \<open>Eigen's \<^verbatim>\<open>inverse()\<close> of a fixed-size matrix of size 1: \<^verbatim>\<open>Scalar(1) / matrix.coeff(0,0)\<close>,
      with no test of the divisor\<close>
  "inverse_1x1 M = [[1 / coeff M 0 0]]"

text \<open>
  The one-state, one-input model of the specification's concrete scenario: the state's
  derivative is the control, the state Jacobian is zero and the control Jacobian is one.
  Its initial guess is the zero trajectory with total time one, and it adds no constraint.
\<close>

definition scenario_model :: "'a::{zero,one} Model" where
  "scenario_model =
     \<lparr>n_states = 1, n_inputs = 1,
      ode = (\<lambda>x u. u),
      state_jacobian = (\<lambda>x u. [[0]]),
      control_jacobian = (\<lambda>x u. [[1]]),
      initialize = (\<lambda>k X U. (zero_mat 1 k, zero_mat 1 k)),
      total_time_guess = 1,
      add_application_constraints = (\<lambda>s k. s)\<rparr>"


section \<open>The main program: constants and solver setup\<close>

definition K :: nat where
  "K = 50"

definition interval_width :: "nat \<Rightarrow> real" where
  \<comment> \<open>\<^verbatim>\<open>1 / double(K-1)\<close>, as a function of the number of trajectory points\<close>
  "interval_width k = 1 / real (k - 1)"

definition main_dt :: real where
  "main_dt = interval_width K"

definition weight_trust_region_sigma :: real where
  "weight_trust_region_sigma = 1"

definition weight_trust_region_xu :: real where
  "weight_trust_region_xu = 1 / 1000"

definition weight_virtual_control :: real where
  "weight_virtual_control = 100"

definition iterations :: nat where
  "iterations = 10"

text \<open>
  The linearized model of interval \<open>k\<close>, row \<open>row_index\<close>:
  \<^verbatim>\<open>-I x(k+1) + A x(k) + B u(k) + C u(k+1) + Sigma sigma + z + nu == 0\<close>.
\<close>

definition dynamics_equality :: "nat \<Rightarrow> nat \<Rightarrow> nat \<Rightarrow> nat \<Rightarrow> Constraint" where
  "dynamics_equality n m k row_index =
    (let eq = times_var (Constant (- 1)) (var ''X'' [row_index, k + 1]);
         eq = fold (\<lambda>col_index eq.
                plus_expr eq (times_var (param (A_bar_at k row_index col_index))
                                (var ''X'' [col_index, k]))) [0..<n] eq;
         eq = fold (\<lambda>col_index eq.
                plus_expr eq (times_var (param (B_bar_at k row_index col_index))
                                (var ''U'' [col_index, k]))) [0..<m] eq;
         eq = fold (\<lambda>col_index eq.
                plus_expr eq (times_var (param (C_bar_at k row_index col_index))
                                (var ''U'' [col_index, k + 1]))) [0..<m] eq;
         eq = plus_expr eq (times_var (param (Sigma_bar_at k row_index 0)) (var ''sigma'' []));
         eq = plus_expr eq (constant_term (param (z_bar_at k row_index 0)));
         eq = plus_expr eq (times_var (Constant 1) (var ''nu'' [row_index, k]))
     in EqualityConstraint eq)"

definition add_dynamics_constraints :: "nat \<Rightarrow> nat \<Rightarrow> nat \<Rightarrow> EcosWrapper \<Rightarrow> EcosWrapper" where
  "add_dynamics_constraints n m kk solver =
     fold (\<lambda>k solver.
        fold (\<lambda>row_index solver. add_constraint (dynamics_equality n m k row_index) solver)
          [0..<n] solver)
       [0..<kk - 1] solver"

definition virtual_control_vector :: "nat \<Rightarrow> nat \<Rightarrow> AffineExpression list" where
  "virtual_control_vector n kk =
     fold (\<lambda>k v.
        fold (\<lambda>row_index v. v @ [times_var (Constant 1) (var ''nu'' [row_index, k])]) [0..<n] v)
       [0..<kk - 1] []"

text \<open>
  The trust region of the total time.  The four callbacks capture \<^verbatim>\<open>sigma\<close> by
  reference: they read the variable when they are called.
\<close>

definition sigma_trust_region :: Constraint where
  "sigma_trust_region =
    (let sigma_fn1 = param_fn (\<lambda>l. - main_sigma l);
         sigma_fn2 = param_fn (\<lambda>l. 0.5 + 0.5 * main_sigma l * main_sigma l);
         sigma_fn3 = param_fn (\<lambda>l. main_sigma l);
         sigma_fn4 = param_fn (\<lambda>l. 0.5 - 0.5 * main_sigma l * main_sigma l)
     in SecondOrderConeConstraint
          [plus_expr
             (plus_expr (times_var sigma_fn1 (var ''sigma'' []))
                        (times_var (Constant (- 0.5)) (var ''Delta_sigma'' [])))
             (constant_term sigma_fn2),
           times_var (Constant 1) (var ''sigma'' [])]
          (plus_expr
             (plus_expr (times_var sigma_fn3 (var ''sigma'' []))
                        (times_var (Constant 0.5) (var ''Delta_sigma'' [])))
             (constant_term sigma_fn4)))"

definition declare_problem :: "nat \<Rightarrow> nat \<Rightarrow> nat \<Rightarrow> EcosWrapper" where
  \<comment> \<open>the solver setup of \<^verbatim>\<open>main\<close> up to the call of the model's hook\<close>
  "declare_problem n m kk =
    (let solver = EcosWrapper_new;
         solver = create_tensor_variable ''X'' [n, kk] solver;
         solver = create_tensor_variable ''U'' [m, kk] solver;
         solver = create_tensor_variable ''nu'' [n, kk - 1] solver;
         solver = create_tensor_variable ''norm2_nu'' [] solver;
         solver = create_tensor_variable ''sigma'' [] solver;
         solver = create_tensor_variable ''Delta_sigma'' [] solver;
         solver = add_minimization_term (times_var (Constant 1) (var ''sigma'' [])) solver;
         solver = add_dynamics_constraints n m kk solver;
         solver = add_constraint
                    (SecondOrderConeConstraint (virtual_control_vector n kk)
                       (times_var (Constant 1) (var ''norm2_nu'' []))) solver;
         solver = add_minimization_term
                    (times_var (Constant weight_virtual_control) (var ''norm2_nu'' [])) solver;
         solver = add_constraint sigma_trust_region solver;
         solver = add_minimization_term
                    (times_var (Constant weight_trust_region_sigma) (var ''Delta_sigma'' [])) solver
     in solver)"

definition solver_setup :: "real Model \<Rightarrow> nat \<Rightarrow> EcosWrapper" where
  "solver_setup mdl kk =
    (let solver = declare_problem (n_states mdl) (n_inputs mdl) kk;
         solver = add_application_constraints mdl solver kk;
         solver = compile_problem_structure solver
     in solver)"


section \<open>The integrator\<close>

text \<open>
  Modelled from the spec: the numerical integrator is a library routine
  (\<^verbatim>\<open>integrate_adaptive\<close> with a controlled \<^verbatim>\<open>runge_kutta_dopri5\<close> stepper) that is not
  part of the sources.  The specification describes it as an adaptive embedded
  Runge-Kutta method with absolute and relative tolerance \<open>1e-4\<close> and initial step
  \<open>dt/10\<close>.  The model is an explicit embedded Runge-Kutta scheme: the stepper holds the
  table of coefficients, the error measure and the two adjustments of the step size, all
  of them parameters.  A step whose error measure exceeds one is rejected and tried again
  with the decreased step; an accepted step advances the time and proposes the next step.
  The loop may in principle run forever, so it is given fuel, the number of step
  attempts it may make: \<open>None\<close> means that the integration has not returned.
\<close>

record runge_kutta =
  nodes :: "real list"
  coefficients :: "real list list"
  weights :: "real list"
  error_weights :: "real list"
  error_value :: "real \<Rightarrow> real \<Rightarrow> real matrix \<Rightarrow> real matrix \<Rightarrow> real matrix \<Rightarrow> real \<Rightarrow> real"
  decrease_step :: "real \<Rightarrow> real \<Rightarrow> real"
  increase_step :: "real \<Rightarrow> real \<Rightarrow> real"

record controlled_stepper =
  eps_abs :: real
  eps_rel :: real
  stepper_of :: runge_kutta

definition make_controlled :: "real \<Rightarrow> real \<Rightarrow> runge_kutta \<Rightarrow> controlled_stepper" where
  "make_controlled a r st = \<lparr>eps_abs = a, eps_rel = r, stepper_of = st\<rparr>"

datatype controlled_step_result = success | fail

type_synonym system = "real matrix \<Rightarrow> real matrix \<Rightarrow> real \<Rightarrow> real matrix"

definition lincomb :: "real matrix \<Rightarrow> real \<Rightarrow> real list \<Rightarrow> real matrix list \<Rightarrow> real matrix" where
  \<comment> \<open>\<open>x + h (c\<^sub>1 k\<^sub>1 + \<dots> + c\<^sub>s k\<^sub>s)\<close>\<close>
  "lincomb x h cs ks = foldl (\<lambda>acc (c, k). mat_add acc (smult (h * c) k)) x (zip cs ks)"

definition zeros_like :: "real matrix \<Rightarrow> real matrix" where
  "zeros_like x = map (map (\<lambda>_. 0)) x"

text \<open>
  The stages of one step.  The system is called with the point, a buffer for the
  derivative and the time; the buffer has the static type of the state, and
  \<^verbatim>\<open>operator()\<close> overwrites all of it.
\<close>

fun rk_stages ::
  "system \<Rightarrow> real matrix \<Rightarrow> real \<Rightarrow> real \<Rightarrow> (real \<times> real list) list \<Rightarrow> real matrix list
     \<Rightarrow> real matrix list" where
  "rk_stages sys x t h [] ks = ks"
| "rk_stages sys x t h ((c, as) # rest) ks =
     rk_stages sys x t h rest (ks @ [sys (lincomb x h as ks) x (t + c * h)])"

definition try_step ::
  "controlled_stepper \<Rightarrow> system \<Rightarrow> real matrix \<Rightarrow> real \<Rightarrow> real
     \<Rightarrow> controlled_step_result \<times> real matrix \<times> real \<times> real" where
  "try_step st sys x t h =
    (let rk = stepper_of st;
         dxdt = sys x x t;
         ks = rk_stages sys x t h (zip (nodes rk) (coefficients rk)) [];
         x_new = lincomb x h (weights rk) ks;
         x_err = lincomb (zeros_like x) h (error_weights rk) ks;
         err = error_value rk (eps_abs st) (eps_rel st) x dxdt x_err h
     in if 1 < err then (fail, x, t, decrease_step rk h err)
        else (success, x_new, t + h, increase_step rk h err))"

definition epsilon :: real where
  \<comment> \<open>\<^verbatim>\<open>std::numeric_limits<double>::epsilon()\<close>\<close>
  "epsilon = 1 / 2 ^ 52"

definition less_with_sign :: "real \<Rightarrow> real \<Rightarrow> real \<Rightarrow> bool" where
  "less_with_sign t1 t2 h = (if 0 < h then epsilon < t2 - t1 else epsilon < t1 - t2)"

fun integrate_adaptive ::
  "nat \<Rightarrow> controlled_stepper \<Rightarrow> system \<Rightarrow> real matrix \<Rightarrow> real \<Rightarrow> real \<Rightarrow> real
     \<Rightarrow> real matrix option"
and try_until_success ::
  "nat \<Rightarrow> controlled_stepper \<Rightarrow> system \<Rightarrow> real matrix \<Rightarrow> real \<Rightarrow> real \<Rightarrow> real
     \<Rightarrow> real matrix option"
where
  "integrate_adaptive fuel st sys x t t_end h =
     (if less_with_sign t t_end h
      then try_until_success fuel st sys x t t_end
             (if less_with_sign t_end (t + h) h then t_end - t else h)
      else Some x)"
| "try_until_success 0 st sys x t t_end h = None"
| "try_until_success (Suc fuel) st sys x t t_end h =
     (case try_step st sys x t h of
        (fail, x', t', h') \<Rightarrow> try_until_success fuel st sys x t t_end h'
      | (success, x', t', h') \<Rightarrow> integrate_adaptive fuel st sys x' t' t_end h')"


section \<open>The main program: the successive convexification loop\<close>

text \<open>
  What \<^verbatim>\<open>main\<close> takes from outside the sources besides the model: Eigen's matrix
  inverse, the stepper, and the two functions of the solver wrapper that the loop calls
  (\<^verbatim>\<open>solve_problem\<close>, given the problem with its parameters refreshed, returns the
  solution vector; \<^verbatim>\<open>get_tensor_variable_index\<close> gives the position of a variable in
  it).  The number of trajectory points is an argument of the functions below; \<^verbatim>\<open>main\<close>
  fixes it to \<open>K\<close>.
\<close>

record library =
  matrix_inverse :: "real matrix \<Rightarrow> real matrix"
  stepper :: runge_kutta
  solve_problem :: "EcosWrapper \<Rightarrow> nat \<Rightarrow> real"
  get_tensor_variable_index :: "EcosWrapper \<Rightarrow> string \<Rightarrow> nat list \<Rightarrow> nat"

record program_state =
  vars :: locals
  solver :: EcosWrapper

definition initial_V :: "real Model \<Rightarrow> real matrix \<Rightarrow> nat \<Rightarrow> real matrix" where
  \<comment> \<open>\<^verbatim>\<open>V.setZero(); V.col(0) = X.col(k); V.block<n,n>(0, 1).setIdentity();\<close>\<close>
  "initial_V mdl X k =
    (let V = zero_mat (n_states mdl) (n_V_states mdl);
         V = set_col V 0 (col X k);
         V = set_block V 0 1 (identity_mat (n_states mdl))
     in V)"

definition interval_ODE :: "real Model \<Rightarrow> nat \<Rightarrow> locals \<Rightarrow> nat \<Rightarrow> real DiscretizationODE" where
  \<comment> \<open>\<^verbatim>\<open>DiscretizationODE discretizationODE(U.col(k), U.col(k+1), sigma, dt, model)\<close>\<close>
  "interval_ODE mdl kk l k =
     \<lparr>u_t = col (main_U l) k, u_t1 = col (main_U l) (k + 1), sigma = main_sigma l,
      dt = interval_width kk, model = mdl\<rparr>"

definition integrate_interval ::
  "library \<Rightarrow> nat \<Rightarrow> real Model \<Rightarrow> nat \<Rightarrow> locals \<Rightarrow> nat \<Rightarrow> real matrix option" where
  "integrate_interval lib fuel mdl kk l k =
     integrate_adaptive fuel (make_controlled (1 / 10 ^ 4) (1 / 10 ^ 4) (stepper lib))
       (DiscretizationODE_call (matrix_inverse lib) (interval_ODE mdl kk l k))
       (initial_V mdl (main_X l) k) 0 (interval_width kk) (interval_width kk / 10)"

definition store_interval :: "real Model \<Rightarrow> locals \<Rightarrow> nat \<Rightarrow> real matrix \<Rightarrow> locals" where
  \<comment> \<open>the five assignments that follow the integration, \<open>V\<close> being its result\<close>
  "store_interval mdl l k V =
    (let n = n_states mdl; m = n_inputs mdl;
         cols = 1;
         l = l\<lparr>A_bar := (A_bar l)[k := block V 0 cols n n]\<rparr>;
         cols = cols + n;
         l = l\<lparr>B_bar := (B_bar l)[k := mat_mul m (A_bar l ! k) (block V 0 cols n m)]\<rparr>;
         cols = cols + m;
         l = l\<lparr>C_bar := (C_bar l)[k := mat_mul m (A_bar l ! k) (block V 0 cols n m)]\<rparr>;
         cols = cols + m;
         l = l\<lparr>Sigma_bar := (Sigma_bar l)[k := mat_mul 1 (A_bar l ! k) (block V 0 cols n 1)]\<rparr>;
         cols = cols + 1;
         l = l\<lparr>z_bar := (z_bar l)[k := mat_mul 1 (A_bar l ! k) (block V 0 cols n 1)]\<rparr>
     in l)"

definition affine_model_at ::
  "locals \<Rightarrow> nat \<Rightarrow> real matrix \<times> real matrix \<times> real matrix \<times> real matrix \<times> real matrix" where
  \<comment> \<open>the affine model of interval \<open>k\<close> as the five arrays hold it\<close>
  "affine_model_at l k = (A_bar l ! k, B_bar l ! k, C_bar l ! k, Sigma_bar l ! k, z_bar l ! k)"

definition arrays_sized :: "nat \<Rightarrow> locals \<Rightarrow> bool" where
  \<comment> \<open>the five arrays have \<open>K - 1\<close> entries (\<^verbatim>\<open>array<..., (K-1)>\<close>)\<close>
  "arrays_sized kk l =
     (length (A_bar l) = kk - 1 \<and> length (B_bar l) = kk - 1 \<and> length (C_bar l) = kk - 1
      \<and> length (Sigma_bar l) = kk - 1 \<and> length (z_bar l) = kk - 1)"

definition discretize_interval ::
  "library \<Rightarrow> nat \<Rightarrow> real Model \<Rightarrow> nat \<Rightarrow> nat \<Rightarrow> locals \<Rightarrow> locals option" where
  \<comment> \<open>the body of the loop over the intervals\<close>
  "discretize_interval lib fuel mdl kk k l =
     map_option (store_interval mdl l k) (integrate_interval lib fuel mdl kk l k)"

fun discretize_all ::
  "library \<Rightarrow> nat \<Rightarrow> real Model \<Rightarrow> nat \<Rightarrow> nat list \<Rightarrow> locals \<Rightarrow> locals option" where
  "discretize_all lib fuel mdl kk [] l = Some l"
| "discretize_all lib fuel mdl kk (k # ks) l =
     (case discretize_interval lib fuel mdl kk k l of
        None \<Rightarrow> None
      | Some l' \<Rightarrow> discretize_all lib fuel mdl kk ks l')"

definition linearize :: "library \<Rightarrow> nat \<Rightarrow> real Model \<Rightarrow> nat \<Rightarrow> locals \<Rightarrow> locals option" where
  \<comment> \<open>\<^verbatim>\<open>for (size_t k = 0; k < K-1; k++)\<close>\<close>
  "linearize lib fuel mdl kk l = discretize_all lib fuel mdl kk [0..<kk - 1] l"

definition set_coeff :: "real matrix \<Rightarrow> nat \<Rightarrow> nat \<Rightarrow> real \<Rightarrow> real matrix" where
  \<comment> \<open>\<^verbatim>\<open>M(i, j) = v\<close>\<close>
  "set_coeff M i j v = M[i := (M ! i)[j := v]]"

definition X_indices :: "library \<Rightarrow> EcosWrapper \<Rightarrow> nat \<Rightarrow> nat \<Rightarrow> nat" where
  "X_indices lib s i k = get_tensor_variable_index lib s ''X'' [i, k]"

definition U_indices :: "library \<Rightarrow> EcosWrapper \<Rightarrow> nat \<Rightarrow> nat \<Rightarrow> nat" where
  "U_indices lib s i k = get_tensor_variable_index lib s ''U'' [i, k]"

definition sigma_index :: "library \<Rightarrow> EcosWrapper \<Rightarrow> nat" where
  "sigma_index lib s = get_tensor_variable_index lib s ''sigma'' []"

definition read_solution ::
  "library \<Rightarrow> EcosWrapper \<Rightarrow> real Model \<Rightarrow> nat \<Rightarrow> (nat \<Rightarrow> real) \<Rightarrow> locals \<Rightarrow> locals" where
  \<comment> \<open>the loops under \<^verbatim>\<open>// Read solution\<close> and the assignment to \<^verbatim>\<open>sigma\<close>\<close>
  "read_solution lib s mdl kk get_solution_value l =
    (let l = fold (\<lambda>k l.
               let l = fold (\<lambda>i l. l\<lparr>main_X := set_coeff (main_X l) i k
                                         (get_solution_value (X_indices lib s i k))\<rparr>)
                         [0..<n_states mdl] l;
                   l = fold (\<lambda>i l. l\<lparr>main_U := set_coeff (main_U l) i k
                                         (get_solution_value (U_indices lib s i k))\<rparr>)
                         [0..<n_inputs mdl] l
               in l) [0..<kk] l;
         l = l\<lparr>main_sigma := get_solution_value (sigma_index lib s)\<rparr>
     in l)"

definition solved_problem ::
  "library \<Rightarrow> nat \<Rightarrow> real Model \<Rightarrow> nat \<Rightarrow> program_state \<Rightarrow> EcosWrapper option" where
  \<comment> \<open>the problem that \<^verbatim>\<open>solve_problem\<close> solves in the iteration that starts at \<open>st\<close>: the
      parameters are read after the discretization\<close>
  "solved_problem lib fuel mdl kk st =
     map_option (\<lambda>l. refresh l (solver st)) (linearize lib fuel mdl kk (vars st))"

definition sc_iteration ::
  "library \<Rightarrow> nat \<Rightarrow> real Model \<Rightarrow> nat \<Rightarrow> program_state \<Rightarrow> program_state option" where
  \<comment> \<open>the body of the loop over \<^verbatim>\<open>it\<close>\<close>
  "sc_iteration lib fuel mdl kk st =
    (case linearize lib fuel mdl kk (vars st) of
       None \<Rightarrow> None
     | Some l \<Rightarrow>
         let get_solution_value = solve_problem lib (refresh l (solver st));
             l = read_solution lib (solver st) mdl kk get_solution_value l
         in Some (st\<lparr>vars := l\<rparr>))"

function sc_loop ::
  "library \<Rightarrow> nat \<Rightarrow> real Model \<Rightarrow> nat \<Rightarrow> nat \<Rightarrow> program_state \<Rightarrow> program_state option" where
  "sc_loop lib fuel mdl kk it st =
     (if it < iterations + 1
      then (case sc_iteration lib fuel mdl kk st of
              None \<Rightarrow> None
            | Some st' \<Rightarrow> sc_loop lib fuel mdl kk (it + 1) st')
      else Some st)"
  by pat_completeness auto
termination
  by (relation "measure (\<lambda>(lib, fuel, mdl, kk, it, st). iterations + 1 - it)") auto

declare sc_loop.simps [simp del]

definition main_init :: "real Model \<Rightarrow> nat \<Rightarrow> locals \<Rightarrow> program_state" where
  \<comment> \<open>the state at the start of the loop; \<open>l0\<close> is the content of the uninitialized
      variables\<close>
  "main_init mdl kk l0 =
    (let (X, U) = initialize mdl kk (main_X l0) (main_U l0);
         sigma = total_time_guess mdl;
         s = solver_setup mdl kk
     in \<lparr>vars = l0\<lparr>main_X := X, main_U := U, main_sigma := sigma\<rparr>, solver = s\<rparr>)"

definition main_with ::
  "library \<Rightarrow> nat \<Rightarrow> real Model \<Rightarrow> nat \<Rightarrow> locals \<Rightarrow> program_state option" where
  "main_with lib fuel mdl kk l0 = sc_loop lib fuel mdl kk 1 (main_init mdl kk l0)"

definition main :: "library \<Rightarrow> nat \<Rightarrow> real Model \<Rightarrow> locals \<Rightarrow> program_state option" where
  "main lib fuel mdl l0 = main_with lib fuel mdl K l0"


section \<open>Concrete inputs\<close>

text \<open>
  Inputs on which the program is run in the examples below: the embedded pair of Heun's
  and Euler's methods with a step-doubling controller as the stepper, the size-1 inverse,
  a solver that returns the vector of twos, and values of the program's variables for
  the scenario model with two trajectory points.
\<close>

definition max_ratio :: "real \<Rightarrow> real \<Rightarrow> real matrix \<Rightarrow> real matrix \<Rightarrow> real matrix \<Rightarrow> real \<Rightarrow> real" where
  "max_ratio a r x dxdt x_err h =
     fold max
       (map (\<lambda>(e, v, d). \<bar>e\<bar> / (a + r * (\<bar>v\<bar> + \<bar>h\<bar> * \<bar>d\<bar>)))
          (zip (concat x_err) (zip (concat x) (concat dxdt))))
       0"

definition heun_euler :: runge_kutta where
  "heun_euler =
     \<lparr>nodes = [0, 1], coefficients = [[], [1]], weights = [1 / 2, 1 / 2],
      error_weights = [- 1 / 2, 1 / 2],
      error_value = max_ratio,
      decrease_step = (\<lambda>h err. h / 2),
      increase_step = (\<lambda>h err. if err < 1 / 2 then 2 * h else h)\<rparr>"

definition static_model :: "nat \<Rightarrow> nat \<Rightarrow> real Model" where
  \<comment> \<open>static dynamics: the derivative and both Jacobians are zero\<close>
  "static_model n m =
     \<lparr>n_states = n, n_inputs = m,
      ode = (\<lambda>x u. zero_mat n 1),
      state_jacobian = (\<lambda>x u. zero_mat n n),
      control_jacobian = (\<lambda>x u. zero_mat n m),
      initialize = (\<lambda>k X U. (zero_mat n k, zero_mat m k)),
      total_time_guess = 1,
      add_application_constraints = (\<lambda>s k. s)\<rparr>"

definition scenario_library :: library where
  "scenario_library =
     \<lparr>matrix_inverse = inverse_1x1, stepper = heun_euler,
      solve_problem = (\<lambda>s i. 2),
      get_tensor_variable_index = (\<lambda>s name indices. 0)\<rparr>"

definition scenario_locals :: locals where
  "scenario_locals =
     \<lparr>main_X = [[0, 0]], main_U = [[1, 1]], main_sigma = 1 / 1000,
      A_bar = [[[9]]], B_bar = [[[9]]], C_bar = [[[9]]], Sigma_bar = [[[9]]], z_bar = [[[9]]]\<rparr>"

section \<open>Dimensions and blocks\<close>

lemma mat_dim_length: "mat_dim r c M \<Longrightarrow> length M = r"
  by (simp add: mat_dim_def)

lemma mat_dim_nth: "mat_dim r c M \<Longrightarrow> i < r \<Longrightarrow> length (M ! i) = c"
  by (simp add: mat_dim_def list_all_length)

lemma mat_dimI: "length M = r \<Longrightarrow> (\<And>i. i < r \<Longrightarrow> length (M ! i) = c) \<Longrightarrow> mat_dim r c M"
  by (simp add: mat_dim_def list_all_length)

lemma mat_dim_smult: "mat_dim r c A \<Longrightarrow> mat_dim r c (smult s A)"
  by (simp add: mat_dim_def smult_def list_all_length)

lemma mat_dim_mult_s: "mat_dim r c A \<Longrightarrow> mat_dim r c (mult_s A s)"
  by (simp add: mat_dim_def mult_s_def list_all_length)

lemma mat_dim_neg: "mat_dim r c A \<Longrightarrow> mat_dim r c (mat_neg A)"
  by (simp add: mat_dim_def mat_neg_def list_all_length)

lemma mat_dim_add: "mat_dim r c A \<Longrightarrow> mat_dim r c B \<Longrightarrow> mat_dim r c (mat_add A B)"
  by (simp add: mat_dim_def mat_add_def list_all_length)

lemma mat_dim_sub: "mat_dim r c A \<Longrightarrow> mat_dim r c B \<Longrightarrow> mat_dim r c (mat_sub A B)"
  by (simp add: mat_dim_def mat_sub_def list_all_length)

lemma mat_dim_mul: "length A = r \<Longrightarrow> mat_dim r c (mat_mul c A B)"
  by (simp add: mat_dim_def mat_mul_def list_all_length)

lemma mat_dim_block:
  "mat_dim r c M \<Longrightarrow> r0 + nr \<le> r \<Longrightarrow> c0 + nc \<le> c \<Longrightarrow> mat_dim nr nc (block M r0 c0 nr nc)"
  by (simp add: mat_dim_def block_def list_all_length)

lemma mat_dim_set_block:
  "mat_dim r c M \<Longrightarrow> mat_dim r w B \<Longrightarrow> c0 + w \<le> c \<Longrightarrow> mat_dim r c (set_block M 0 c0 B)"
  by (simp add: mat_dim_def set_block_def list_all_length)

lemma row_left:
  assumes "c1 + w1 \<le> c0" "c0 \<le> length row"
  shows "take w1 (drop c1 (take c0 row @ rest)) = take w1 (drop c1 row)"
proof -
  have "take w1 (drop c1 (take c0 row @ rest)) = take w1 (drop c1 (take c0 row))"
    using assms by simp
  also have "\<dots> = take w1 (take (c0 - c1) (drop c1 row))"
    by (simp add: drop_take)
  also have "\<dots> = take w1 (drop c1 row)"
    using assms by (simp add: min_def)
  finally show ?thesis .
qed

lemma block_set_block_same:
  "mat_dim r c M \<Longrightarrow> mat_dim r w B \<Longrightarrow> c0 + w \<le> c \<Longrightarrow> block (set_block M 0 c0 B) 0 c0 r w = B"
  by (rule nth_equalityI) (simp_all add: mat_dim_def set_block_def block_def list_all_length)

lemma block_set_block_left:
  "mat_dim r c M \<Longrightarrow> mat_dim r w B \<Longrightarrow> c0 + w \<le> c \<Longrightarrow> c1 + w1 \<le> c0 \<Longrightarrow>
     block (set_block M 0 c0 B) 0 c1 r w1 = block M 0 c1 r w1"
  by (rule nth_equalityI)
     (simp_all add: mat_dim_def set_block_def block_def list_all_length row_left
        del: drop_append take_append)

lemma block_set_block_right:
  "mat_dim r c M \<Longrightarrow> mat_dim r w B \<Longrightarrow> c0 + w \<le> c \<Longrightarrow> c0 + w \<le> c1 \<Longrightarrow>
     block (set_block M 0 c0 B) 0 c1 r w1 = block M 0 c1 r w1"
  by (rule nth_equalityI)
     (simp_all add: mat_dim_def set_block_def block_def list_all_length)

section \<open>The derivative of the augmented state\<close>

lemma DiscretizationODE_call_unfold:
  fixes self :: "'a::{zero,plus,minus,uminus,times,inverse,one} DiscretizationODE"
    and V dVdt :: "'a matrix" and t :: 'a
  defines "n \<equiv> n_states (model self)" and "m \<equiv> n_inputs (model self)"
  defines "x \<equiv> col V 0"
      and "u \<equiv> mat_add (u_t self) (smult (t / dt self) (mat_sub (u_t1 self) (u_t self)))"
  defines "Phi \<equiv> block V 0 1 n n"
  defines "Ab \<equiv> smult (sigma self) (state_jacobian (model self) x u)"
      and "Bb \<equiv> smult (sigma self) (control_jacobian (model self) x u)"
      and "f \<equiv> ode (model self) x u"
  shows "DiscretizationODE_call inverse_of self V dVdt t =
     set_block (set_block (set_block (set_block (set_block (set_block dVdt 0 0 (smult (sigma self) f))
        0 1 (mat_mul n Ab Phi))
        0 (1 + n) (mult_s (mat_mul m (inverse_of Phi) Bb) (t / dt self)))
        0 (1 + n + m) (mult_s (mat_mul m (inverse_of Phi) Bb) (1 - t / dt self)))
        0 (1 + n + m + m) (mat_mul 1 (inverse_of Phi) f))
        0 (1 + n + m + m + 1) (mat_mul 1 (inverse_of Phi)
                     (mat_sub (mat_mul 1 (mat_neg Ab) x) (mat_mul 1 Bb u)))"
  unfolding DiscretizationODE_call_def Let_def n_def m_def x_def u_def Phi_def Ab_def Bb_def f_def
  by (simp add: add.commute add.left_commute)

lemma six_blocks:
  assumes M: "mat_dim n (3 + n + 2 * m) M"
    and d1: "mat_dim n 1 D1" and d2: "mat_dim n n D2" and d3: "mat_dim n m D3"
    and d4: "mat_dim n m D4" and d5: "mat_dim n 1 D5" and d6: "mat_dim n 1 D6"
  defines "R \<equiv> set_block (set_block (set_block (set_block (set_block (set_block M 0 0 D1)
        0 1 D2) 0 (1 + n) D3) 0 (1 + n + m) D4) 0 (1 + n + m + m) D5) 0 (1 + n + m + m + 1) D6"
  shows "mat_dim n (3 + n + 2 * m) R"
    and "block R 0 0 n 1 = D1"
    and "block R 0 1 n n = D2"
    and "block R 0 (1 + n) n m = D3"
    and "block R 0 (1 + n + m) n m = D4"
    and "block R 0 (1 + n + m + m) n 1 = D5"
    and "block R 0 (1 + n + m + m + 1) n 1 = D6"
proof -
  let ?N = "3 + n + 2 * m"
  let ?M1 = "set_block M 0 0 D1"
  let ?M2 = "set_block ?M1 0 1 D2"
  let ?M3 = "set_block ?M2 0 (1 + n) D3"
  let ?M4 = "set_block ?M3 0 (1 + n + m) D4"
  let ?M5 = "set_block ?M4 0 (1 + n + m + m) D5"
  have m1: "mat_dim n ?N ?M1" by (rule mat_dim_set_block [OF M d1]) simp
  have m2: "mat_dim n ?N ?M2" by (rule mat_dim_set_block [OF m1 d2]) simp
  have m3: "mat_dim n ?N ?M3" by (rule mat_dim_set_block [OF m2 d3]) simp
  have m4: "mat_dim n ?N ?M4" by (rule mat_dim_set_block [OF m3 d4]) simp
  have m5: "mat_dim n ?N ?M5" by (rule mat_dim_set_block [OF m4 d5]) simp
  show "mat_dim n ?N R" unfolding R_def by (rule mat_dim_set_block [OF m5 d6]) simp
  have l6: "c1 + w1 \<le> 1 + n + m + m + 1 \<Longrightarrow> block R 0 c1 n w1 = block ?M5 0 c1 n w1" for c1 w1
    unfolding R_def by (rule block_set_block_left [OF m5 d6]) simp_all
  have l5: "c1 + w1 \<le> 1 + n + m + m \<Longrightarrow> block ?M5 0 c1 n w1 = block ?M4 0 c1 n w1" for c1 w1
    by (rule block_set_block_left [OF m4 d5]) simp_all
  have l4: "c1 + w1 \<le> 1 + n + m \<Longrightarrow> block ?M4 0 c1 n w1 = block ?M3 0 c1 n w1" for c1 w1
    by (rule block_set_block_left [OF m3 d4]) simp_all
  have l3: "c1 + w1 \<le> 1 + n \<Longrightarrow> block ?M3 0 c1 n w1 = block ?M2 0 c1 n w1" for c1 w1
    by (rule block_set_block_left [OF m2 d3]) simp_all
  have l2: "c1 + w1 \<le> 1 \<Longrightarrow> block ?M2 0 c1 n w1 = block ?M1 0 c1 n w1" for c1 w1
    by (rule block_set_block_left [OF m1 d2]) simp_all
  have "block R 0 0 n 1 = block ?M5 0 0 n 1" by (rule l6) simp
  also have "\<dots> = block ?M4 0 0 n 1" by (rule l5) simp
  also have "\<dots> = block ?M3 0 0 n 1" by (rule l4) simp
  also have "\<dots> = block ?M2 0 0 n 1" by (rule l3) simp
  also have "\<dots> = block ?M1 0 0 n 1" by (rule l2) simp
  also have "\<dots> = D1" by (rule block_set_block_same [OF M d1]) simp
  finally show "block R 0 0 n 1 = D1" .
  have "block R 0 1 n n = block ?M5 0 1 n n" by (rule l6) simp
  also have "\<dots> = block ?M4 0 1 n n" by (rule l5) simp
  also have "\<dots> = block ?M3 0 1 n n" by (rule l4) simp
  also have "\<dots> = block ?M2 0 1 n n" by (rule l3) simp
  also have "\<dots> = D2" by (rule block_set_block_same [OF m1 d2]) simp
  finally show "block R 0 1 n n = D2" .
  have "block R 0 (1 + n) n m = block ?M5 0 (1 + n) n m" by (rule l6) simp
  also have "\<dots> = block ?M4 0 (1 + n) n m" by (rule l5) simp
  also have "\<dots> = block ?M3 0 (1 + n) n m" by (rule l4) simp
  also have "\<dots> = D3" by (rule block_set_block_same [OF m2 d3]) simp
  finally show "block R 0 (1 + n) n m = D3" .
  have "block R 0 (1 + n + m) n m = block ?M5 0 (1 + n + m) n m" by (rule l6) simp
  also have "\<dots> = block ?M4 0 (1 + n + m) n m" by (rule l5) simp
  also have "\<dots> = D4" by (rule block_set_block_same [OF m3 d4]) simp
  finally show "block R 0 (1 + n + m) n m = D4" .
  have "block R 0 (1 + n + m + m) n 1 = block ?M5 0 (1 + n + m + m) n 1" by (rule l6) simp
  also have "\<dots> = D5" by (rule block_set_block_same [OF m4 d5]) simp
  finally show "block R 0 (1 + n + m + m) n 1 = D5" .
  show "block R 0 (1 + n + m + m + 1) n 1 = D6" unfolding R_def
    by (rule block_set_block_same [OF m5 d6]) simp
qed

lemma DiscretizationODE_call_blocks:
  fixes self :: "'a::{zero,plus,minus,uminus,times,inverse,one} DiscretizationODE"
    and V dVdt :: "'a matrix" and t :: 'a and inverse_of :: "'a matrix \<Rightarrow> 'a matrix"
  defines "n \<equiv> n_states (model self)" and "m \<equiv> n_inputs (model self)"
  defines "x \<equiv> col V 0"
      and "u \<equiv> mat_add (u_t self) (smult (t / dt self) (mat_sub (u_t1 self) (u_t self)))"
      and "alpha \<equiv> t / dt self"
  defines "beta \<equiv> 1 - alpha"
  defines "Phi \<equiv> block V 0 1 n n"
  defines "Phi_inv \<equiv> inverse_of Phi"
  defines "f \<equiv> ode (model self) x u"
      and "dfdx \<equiv> state_jacobian (model self) x u"
      and "dfdu \<equiv> control_jacobian (model self) x u"
  defines "R \<equiv> DiscretizationODE_call inverse_of self V dVdt t"
  assumes buffer: "mat_dim n (n_V_states (model self)) dVdt"
    and f: "mat_dim n 1 f" and dfdx: "length dfdx = n" and inv: "length Phi_inv = n"
  shows "block R 0 0 n 1 = smult (sigma self) f
       \<and> block R 0 1 n n = mat_mul n (smult (sigma self) dfdx) Phi
       \<and> block R 0 (1 + n) n m = mult_s (mat_mul m Phi_inv (smult (sigma self) dfdu)) alpha
       \<and> block R 0 (1 + n + m) n m = mult_s (mat_mul m Phi_inv (smult (sigma self) dfdu)) beta
       \<and> block R 0 (1 + n + m + m) n 1 = mat_mul 1 Phi_inv f
       \<and> block R 0 (1 + n + m + m + 1) n 1 =
           mat_mul 1 Phi_inv
             (mat_sub (mat_mul 1 (mat_neg (smult (sigma self) dfdx)) x)
                      (mat_mul 1 (smult (sigma self) dfdu) u))"
proof -
  have M: "mat_dim n (3 + n + 2 * m) dVdt"
    using buffer by (simp add: n_V_states_def n_def m_def)
  have A: "length (smult (sigma self) dfdx) = n"
    using dfdx by (simp add: smult_def)
  have R: "R = set_block (set_block (set_block (set_block (set_block (set_block dVdt 0 0
          (smult (sigma self) f))
        0 1 (mat_mul n (smult (sigma self) dfdx) Phi))
        0 (1 + n) (mult_s (mat_mul m Phi_inv (smult (sigma self) dfdu)) alpha))
        0 (1 + n + m) (mult_s (mat_mul m Phi_inv (smult (sigma self) dfdu)) beta))
        0 (1 + n + m + m) (mat_mul 1 Phi_inv f))
        0 (1 + n + m + m + 1) (mat_mul 1 Phi_inv
             (mat_sub (mat_mul 1 (mat_neg (smult (sigma self) dfdx)) x)
                      (mat_mul 1 (smult (sigma self) dfdu) u)))"
    unfolding R_def n_def m_def x_def u_def alpha_def beta_def Phi_def Phi_inv_def f_def dfdx_def
      dfdu_def
    by (rule DiscretizationODE_call_unfold)
  note blocks = six_blocks [OF M mat_dim_smult [OF f] mat_dim_mul [OF A]
      mat_dim_mult_s [OF mat_dim_mul [OF inv]] mat_dim_mult_s [OF mat_dim_mul [OF inv]]
      mat_dim_mul [OF inv] mat_dim_mul [OF inv]]
  show ?thesis
    unfolding R by (intro conjI blocks(2-7))
qed


lemma DiscretizationODE_call_dim:
  fixes self :: "'a::{zero,plus,minus,uminus,times,inverse,one} DiscretizationODE"
    and V dVdt :: "'a matrix" and t :: 'a and inverse_of :: "'a matrix \<Rightarrow> 'a matrix"
  defines "n \<equiv> n_states (model self)"
  defines "x \<equiv> col V 0"
      and "u \<equiv> mat_add (u_t self) (smult (t / dt self) (mat_sub (u_t1 self) (u_t self)))"
  assumes buffer: "mat_dim n (n_V_states (model self)) dVdt"
    and f: "mat_dim n 1 (ode (model self) x u)"
    and dfdx: "length (state_jacobian (model self) x u) = n"
    and inv: "length (inverse_of (block V 0 1 n n)) = n"
  shows "mat_dim n (n_V_states (model self)) (DiscretizationODE_call inverse_of self V dVdt t)"
proof -
  let ?m = "n_inputs (model self)"
  have M: "mat_dim n (3 + n + 2 * ?m) dVdt"
    using buffer by (simp add: n_V_states_def n_def)
  have A: "length (smult (sigma self) (state_jacobian (model self) x u)) = n"
    using dfdx by (simp add: smult_def)
  have "mat_dim n (3 + n + 2 * ?m) (DiscretizationODE_call inverse_of self V dVdt t)"
    unfolding DiscretizationODE_call_unfold n_def
    by (rule six_blocks(1) [OF M mat_dim_smult [OF f] mat_dim_mul [OF A]
          mat_dim_mult_s [OF mat_dim_mul [OF inv]] mat_dim_mult_s [OF mat_dim_mul [OF inv]]
          mat_dim_mul [OF inv] mat_dim_mul [OF inv], unfolded n_def x_def u_def])
  then show ?thesis
    by (simp add: n_V_states_def n_def)
qed

text \<open>
  C1.  At every augmented state \<open>V\<close> (state column \<open>x\<close>, STM block \<open>Phi\<close>) and every time
  \<open>t\<close>, with the first-order-held control \<open>u = u_t + (t/dt) (u_t1 - u_t)\<close>,
  \<open>alpha = t/dt\<close> and \<open>beta = 1 - alpha\<close>, \<^verbatim>\<open>operator()\<close> leaves in \<open>dVdt\<close> the six
  blocks \<open>sigma f\<close>, \<open>(sigma df/dx) Phi\<close>, \<open>Phi\<^sup>-\<^sup>1 (sigma df/du) alpha\<close>,
  \<open>Phi\<^sup>-\<^sup>1 (sigma df/du) beta\<close>, \<open>Phi\<^sup>-\<^sup>1 f\<close> and
  \<open>Phi\<^sup>-\<^sup>1 (- sigma df/dx x - sigma df/du u)\<close>, in this order of columns, where \<open>f\<close>,
  \<open>df/dx\<close> and \<open>df/du\<close> are the model's \<open>ode\<close>, \<open>state_jacobian\<close> and
  \<open>control_jacobian\<close> at \<open>(x, u)\<close>.  The hypotheses are the sizes that the static
  matrix types of the program fix.  The statement holds for every scalar type, so it
  does not depend on how \<^verbatim>\<open>double\<close> is idealised.
\<close>

theorem DiscretizationODE_derivative_blocks:
  fixes self :: "'a::{zero,plus,minus,uminus,times,inverse,one} DiscretizationODE"
    and V dVdt :: "'a matrix" and t :: 'a and inverse_of :: "'a matrix \<Rightarrow> 'a matrix"
  defines "n \<equiv> n_states (model self)" and "m \<equiv> n_inputs (model self)"
  defines "x \<equiv> col V 0"
      and "u \<equiv> mat_add (u_t self) (smult (t / dt self) (mat_sub (u_t1 self) (u_t self)))"
      and "alpha \<equiv> t / dt self"
  defines "beta \<equiv> 1 - alpha"
  defines "Phi \<equiv> block V 0 1 n n"
  defines "Phi_inv \<equiv> inverse_of Phi"
  defines "f \<equiv> ode (model self) x u"
      and "dfdx \<equiv> state_jacobian (model self) x u"
      and "dfdu \<equiv> control_jacobian (model self) x u"
  defines "R \<equiv> DiscretizationODE_call inverse_of self V dVdt t"
  assumes buffer: "mat_dim n (n_V_states (model self)) dVdt"
    and f: "mat_dim n 1 f" and dfdx: "length dfdx = n" and inv: "length Phi_inv = n"
  shows "block R 0 0 n 1 = smult (sigma self) f
       \<and> block R 0 1 n n = mat_mul n (smult (sigma self) dfdx) Phi
       \<and> block R 0 (1 + n) n m = mult_s (mat_mul m Phi_inv (smult (sigma self) dfdu)) alpha
       \<and> block R 0 (1 + n + m) n m = mult_s (mat_mul m Phi_inv (smult (sigma self) dfdu)) beta
       \<and> block R 0 (1 + n + m + m) n 1 = mat_mul 1 Phi_inv f
       \<and> block R 0 (1 + n + m + m + 1) n 1 =
           mat_mul 1 Phi_inv
             (mat_sub (mat_mul 1 (mat_neg (smult (sigma self) dfdx)) x)
                      (mat_mul 1 (smult (sigma self) dfdu) u))"
  using buffer f dfdx inv
  unfolding n_def m_def x_def u_def alpha_def beta_def Phi_def Phi_inv_def f_def dfdx_def
    dfdu_def R_def
  by (rule DiscretizationODE_call_blocks)

theorem DiscretizationODE_derivative_blocks_witness:
  "block (DiscretizationODE_call inverse_1x1
       \<lparr>u_t = [[1]], u_t1 = [[3]], sigma = 2, dt = 1 / 2, model = scenario_model\<rparr>
       [[5, 2, 0, 0, 0, 0]] [[9, 9, 9, 9, 9, 9]] (1 / 4)) 0 0 1 1 = [[4 :: real]]
   \<and> block (DiscretizationODE_call inverse_1x1
       \<lparr>u_t = [[1]], u_t1 = [[3]], sigma = 2, dt = 1 / 2, model = scenario_model\<rparr>
       [[5, 2, 0, 0, 0, 0]] [[9, 9, 9, 9, 9, 9]] (1 / 4)) 0 1 1 1 = [[0 :: real]]
   \<and> block (DiscretizationODE_call inverse_1x1
       \<lparr>u_t = [[1]], u_t1 = [[3]], sigma = 2, dt = 1 / 2, model = scenario_model\<rparr>
       [[5, 2, 0, 0, 0, 0]] [[9, 9, 9, 9, 9, 9]] (1 / 4)) 0 (1 + 1) 1 1 = [[1 / 2 :: real]]
   \<and> block (DiscretizationODE_call inverse_1x1
       \<lparr>u_t = [[1]], u_t1 = [[3]], sigma = 2, dt = 1 / 2, model = scenario_model\<rparr>
       [[5, 2, 0, 0, 0, 0]] [[9, 9, 9, 9, 9, 9]] (1 / 4)) 0 (1 + 1 + 1) 1 1 = [[1 / 2 :: real]]
   \<and> block (DiscretizationODE_call inverse_1x1
       \<lparr>u_t = [[1]], u_t1 = [[3]], sigma = 2, dt = 1 / 2, model = scenario_model\<rparr>
       [[5, 2, 0, 0, 0, 0]] [[9, 9, 9, 9, 9, 9]] (1 / 4)) 0 (1 + 1 + 1 + 1) 1 1 = [[1 :: real]]
   \<and> block (DiscretizationODE_call inverse_1x1
       \<lparr>u_t = [[1]], u_t1 = [[3]], sigma = 2, dt = 1 / 2, model = scenario_model\<rparr>
       [[5, 2, 0, 0, 0, 0]] [[9, 9, 9, 9, 9, 9]] (1 / 4)) 0 (1 + 1 + 1 + 1 + 1) 1 1
       = [[- 2 :: real]]"
proof -
  let ?self = "\<lparr>u_t = [[1]], u_t1 = [[3]], sigma = 2, dt = 1 / 2, model = scenario_model\<rparr>
                 :: real DiscretizationODE"
  let ?V = "[[5, 2, 0, 0, 0, 0]] :: real matrix"
  let ?x = "col ?V 0"
  let ?u = "mat_add (u_t ?self) (smult ((1 / 4) / dt ?self) (mat_sub (u_t1 ?self) (u_t ?self)))"
  let ?n = "n_states (model ?self)"
  let ?m = "n_inputs (model ?self)"
  let ?Phi_inv = "inverse_1x1 (block ?V 0 1 ?n ?n)"
  let ?f = "ode (model ?self) ?x ?u"
  let ?A = "smult (sigma ?self) (state_jacobian (model ?self) ?x ?u)"
  let ?B = "smult (sigma ?self) (control_jacobian (model ?self) ?x ?u)"
  have buffer: "mat_dim ?n (n_V_states (model ?self)) ([[9, 9, 9, 9, 9, 9]] :: real matrix)"
    by code_simp
  have f: "mat_dim ?n 1 ?f"
    by code_simp
  have dfdx: "length (state_jacobian (model ?self) ?x ?u) = ?n"
    by code_simp
  have inv: "length ?Phi_inv = ?n"
    by code_simp
  have r1: "smult (sigma ?self) ?f = [[4]]"
    by code_simp
  have r2: "mat_mul ?n ?A (block ?V 0 1 ?n ?n) = [[0]]"
    by code_simp
  have r3: "mult_s (mat_mul ?m ?Phi_inv ?B) ((1 / 4) / dt ?self) = [[1 / 2]]"
    by code_simp
  have r4: "mult_s (mat_mul ?m ?Phi_inv ?B) (1 - (1 / 4) / dt ?self) = [[1 / 2]]"
    by code_simp
  have r5: "mat_mul 1 ?Phi_inv ?f = [[1]]"
    by code_simp
  have r6: "mat_mul 1 ?Phi_inv (mat_sub (mat_mul 1 (mat_neg ?A) ?x) (mat_mul 1 ?B ?u)) = [[- 2]]"
    by code_simp
  have n: "?n = 1" "?m = 1"
    by code_simp+
  show ?thesis
    by (rule DiscretizationODE_derivative_blocks [where self = ?self and V = ?V
      and dVdt = "[[9, 9, 9, 9, 9, 9]]" and t = "1 / 4" and inverse_of = inverse_1x1,
      OF buffer f dfdx inv, unfolded r1 r2 r3 r4 r5 r6, unfolded n])
qed

section \<open>A singular state-transition matrix\<close>

lemma inf_times_not_finite: "\<not> is_finite (PInf * d + 0)"
  by (cases d) (simp_all add: is_finite_def signed_inf_def plus_double_def times_double_def zero_double_def)

lemma inverse_1x1_zero: "inverse_1x1 [[Fin 0]] = [[PInf]]"
  by (simp add: inverse_1x1_def coeff_def divide_double_def one_double_def signed_inf_def)

lemma mat_dim_1_1: "mat_dim 1 1 M \<Longrightarrow> \<exists>d. M = [[d]]"
  by (cases M; cases "hd M") (auto simp: mat_dim_def length_Suc_conv)

lemma mat_mul_1x1: "mat_mul 1 [[a]] [[b]] = [[a * b + 0]]"
  by (simp add: mat_mul_def dot_def column_def)

text \<open>
  C5, as the code has it.  \<^verbatim>\<open>operator()\<close> inverts the STM block with no test and has no
  failure path: at a singular block it returns a derivative like at any other, and what
  the division by zero produces flows into the sensitivity blocks.  For a one-state model
  whose STM block is zero, the call returns a full derivative matrix, in which the
  derivative of the sigma sensitivity, \<open>Phi\<^sup>-\<^sup>1 f\<close>, is an infinity or a NaN whatever the
  model returns.
\<close>

theorem singular_Phi_not_finite:
  fixes self :: "double DiscretizationODE" and V dVdt :: "double matrix" and t :: double
  defines "m \<equiv> n_inputs (model self)"
  defines "x \<equiv> col V 0"
      and "u \<equiv> mat_add (u_t self) (smult (t / dt self) (mat_sub (u_t1 self) (u_t self)))"
  assumes one_state: "n_states (model self) = 1"
    and buffer: "mat_dim 1 (n_V_states (model self)) dVdt"
    and f: "mat_dim 1 1 (ode (model self) x u)"
    and dfdx: "length (state_jacobian (model self) x u) = 1"
    and singular: "block V 0 1 1 1 = [[Fin 0]]"
  shows "mat_dim 1 (n_V_states (model self)) (DiscretizationODE_call inverse_1x1 self V dVdt t)
       \<and> (\<exists>d. block (DiscretizationODE_call inverse_1x1 self V dVdt t) 0 (1 + 1 + m + m) 1 1 = [[d]]
             \<and> \<not> is_finite d)"
proof
  have inv: "length (inverse_1x1 (block V 0 1 (n_states (model self)) (n_states (model self))))
               = n_states (model self)"
    by (simp add: inverse_1x1_def one_state)
  show "mat_dim 1 (n_V_states (model self)) (DiscretizationODE_call inverse_1x1 self V dVdt t)"
    using DiscretizationODE_call_dim [where self = self and V = V and dVdt = dVdt and t = t
        and inverse_of = inverse_1x1, unfolded one_state, OF buffer f [unfolded x_def u_def]
        dfdx [unfolded x_def u_def] inv [unfolded one_state]] .
  obtain d0 where d0: "ode (model self) x u = [[d0]]"
    using mat_dim_1_1 [OF f] by blast
  have "block (DiscretizationODE_call inverse_1x1 self V dVdt t) 0 (1 + 1 + m + m) 1 1
          = mat_mul 1 (inverse_1x1 (block V 0 1 1 1)) (ode (model self) x u)"
    using DiscretizationODE_call_blocks [where self = self and V = V and dVdt = dVdt and t = t
        and inverse_of = inverse_1x1, unfolded one_state, OF buffer _ dfdx [unfolded x_def u_def] inv [unfolded one_state]]
      f
    unfolding m_def x_def u_def by simp
  also have "\<dots> = [[PInf * d0 + 0]]"
    by (simp only: singular inverse_1x1_zero d0 mat_mul_1x1)
  finally show "\<exists>d. block (DiscretizationODE_call inverse_1x1 self V dVdt t) 0 (1 + 1 + m + m) 1 1 = [[d]]
             \<and> \<not> is_finite d"
    using inf_times_not_finite by blast
qed

theorem singular_Phi_not_finite_witness:
  "\<exists>d. block (DiscretizationODE_call inverse_1x1
            \<lparr>u_t = [[Fin 1]], u_t1 = [[Fin 3]], sigma = Fin 2, dt = Fin (1 / 2),
               model = scenario_model\<rparr>
            [[Fin 5, Fin 0, Fin 0, Fin 0, Fin 0, Fin 0]]
            [[Fin 9, Fin 9, Fin 9, Fin 9, Fin 9, Fin 9]] (Fin (1 / 4))) 0 (1 + 1 + 1 + 1) 1 1 = [[d]]
       \<and> \<not> is_finite d"
proof -
  let ?self = "\<lparr>u_t = [[Fin 1]], u_t1 = [[Fin 3]], sigma = Fin 2, dt = Fin (1 / 2),
                  model = scenario_model\<rparr> :: double DiscretizationODE"
  let ?V = "[[Fin 5, Fin 0, Fin 0, Fin 0, Fin 0, Fin 0]]"
  let ?dVdt = "[[Fin 9, Fin 9, Fin 9, Fin 9, Fin 9, Fin 9]]"
  let ?x = "col ?V 0"
  let ?u = "mat_add (u_t ?self) (smult (Fin (1 / 4) / dt ?self) (mat_sub (u_t1 ?self) (u_t ?self)))"
  have one_state: "n_states (model ?self) = 1"
    by code_simp
  have buffer: "mat_dim 1 (n_V_states (model ?self)) ?dVdt"
    by code_simp
  have f: "mat_dim 1 1 (ode (model ?self) ?x ?u)"
    by code_simp
  have dfdx: "length (state_jacobian (model ?self) ?x ?u) = 1"
    by code_simp
  have singular: "block ?V 0 1 1 1 = [[Fin 0]]"
    by code_simp
  have m: "n_inputs (model ?self) = 1"
    by code_simp
  show ?thesis
    by (rule singular_Phi_not_finite [where self = ?self and V = ?V and dVdt = ?dVdt
          and t = "Fin (1 / 4)", OF one_state buffer f dfdx singular, unfolded m,
          THEN conjunct2])
qed

text \<open>
  C5 as stated fails: at a zero STM block the call returns normally, and two entries of
  the derivative it returns are NaN.
\<close>

theorem singular_Phi_returns_NaN:
  "DiscretizationODE_call inverse_1x1
     \<lparr>u_t = [[Fin 0]], u_t1 = [[Fin 0]], sigma = Fin 2, dt = Fin (1 / 2), model = scenario_model\<rparr>
     [[Fin 5, Fin 0, Fin 0, Fin 0, Fin 0, Fin 0]]
     [[Fin 9, Fin 9, Fin 9, Fin 9, Fin 9, Fin 9]] (Fin (1 / 4))
   = [[Fin 0, Fin 0, PInf, PInf, NaN, NaN]]"
  by code_simp

section \<open>The trust region of the total time\<close>

lemma cone_sum_one:
  fixes a b s :: real
  assumes sum: "a + b = 1"
  shows "(sqrt (a\<^sup>2 + s\<^sup>2) \<le> b) = (s\<^sup>2 \<le> b - a)"
proof -
  have "b\<^sup>2 - a\<^sup>2 = (b - a) * (a + b)"
    by (simp add: power2_eq_square algebra_simps)
  then have diff: "b\<^sup>2 - a\<^sup>2 = b - a"
    by (simp add: sum)
  show ?thesis
  proof
    assume le: "sqrt (a\<^sup>2 + s\<^sup>2) \<le> b"
    then have "(sqrt (a\<^sup>2 + s\<^sup>2))\<^sup>2 \<le> b\<^sup>2"
      by (intro power_mono) simp_all
    then have "a\<^sup>2 + s\<^sup>2 \<le> b\<^sup>2" by simp
    with diff show "s\<^sup>2 \<le> b - a" by linarith
  next
    assume tr: "s\<^sup>2 \<le> b - a"
    have "0 \<le> s\<^sup>2" by simp
    with tr sum have b0: "0 \<le> b" by linarith
    from tr diff have "a\<^sup>2 + s\<^sup>2 \<le> b\<^sup>2" by linarith
    then have "sqrt (a\<^sup>2 + s\<^sup>2) \<le> sqrt (b\<^sup>2)"
      by (rule real_sqrt_le_mono)
    with b0 show "sqrt (a\<^sup>2 + s\<^sup>2) \<le> b" by simp
  qed
qed

lemma cone_iff:
  fixes s s0 D :: real
  shows "(sqrt ((- s0 * s - 0.5 * D + 0.5 * (1 + s0\<^sup>2))\<^sup>2 + s\<^sup>2) \<le> s0 * s + 0.5 * D + 0.5 * (1 - s0\<^sup>2))
         = ((s - s0)\<^sup>2 \<le> D)"
proof -
  let ?a = "- s0 * s - 0.5 * D + 0.5 * (1 + s0\<^sup>2)"
  let ?b = "s0 * s + 0.5 * D + 0.5 * (1 - s0\<^sup>2)"
  have sum: "?a + ?b = 1" by (simp add: algebra_simps)
  have ba: "?b - ?a = 2 * s0 * s + D - s0\<^sup>2" by (simp add: algebra_simps)
  have sq: "(s - s0)\<^sup>2 = s\<^sup>2 - 2 * s0 * s + s0\<^sup>2"
    by (simp add: power2_eq_square algebra_simps)
  have "(sqrt (?a\<^sup>2 + s\<^sup>2) \<le> ?b) = (s\<^sup>2 \<le> ?b - ?a)"
    by (rule cone_sum_one [OF sum])
  also have "\<dots> = ((s - s0)\<^sup>2 \<le> D)"
    unfolding ba sq by linarith
  finally show ?thesis .
qed

lemma satisfied_sigma_trust_region:
  "satisfied l x sigma_trust_region =
     (sqrt ((- main_sigma l * x ''sigma'' [] - 0.5 * x ''Delta_sigma'' [] + 0.5 * (1 + (main_sigma l)\<^sup>2))\<^sup>2
            + (x ''sigma'' [])\<^sup>2)
        \<le> main_sigma l * x ''sigma'' [] + 0.5 * x ''Delta_sigma'' [] + 0.5 * (1 - (main_sigma l)\<^sup>2))"
  by (simp add: sigma_trust_region_def param_fn_def plus_expr_def times_var_def constant_term_def
      var_def norm2_value_def eval_affine_def power2_eq_square algebra_simps)


text \<open>
  C4.  The second-order-cone constraint that the setup adds for the total time,
  \<open>norm2 [- sigma0 sigma - 0.5 Delta_sigma + 0.5 (1 + sigma0\<^sup>2), sigma] \<le>
  sigma0 sigma + 0.5 Delta_sigma + 0.5 (1 - sigma0\<^sup>2)\<close>, holds at an assignment of the
  optimization variables if and only if \<open>(sigma - sigma0)\<^sup>2 \<le> Delta_sigma\<close>, for all real
  values of \<open>sigma\<close>, \<open>Delta_sigma\<close> and of the reference \<open>sigma0\<close> (the current value of the
  program's variable \<^verbatim>\<open>sigma\<close>).
\<close>

theorem sigma_trust_region_iff:
  "satisfied l x sigma_trust_region =
     (sqrt ((- main_sigma l * x ''sigma'' [] - 0.5 * x ''Delta_sigma'' []
               + 0.5 * (1 + (main_sigma l)\<^sup>2))\<^sup>2 + (x ''sigma'' [])\<^sup>2)
        \<le> main_sigma l * x ''sigma'' [] + 0.5 * x ''Delta_sigma'' [] + 0.5 * (1 - (main_sigma l)\<^sup>2))
   \<and> satisfied l x sigma_trust_region = ((x ''sigma'' [] - main_sigma l)\<^sup>2 \<le> x ''Delta_sigma'' [])"
  by (simp only: satisfied_sigma_trust_region cone_iff)

theorem sigma_trust_region_iff_witness:
  "satisfied
     \<lparr>main_X = [], main_U = [], main_sigma = 1, A_bar = [], B_bar = [], C_bar = [],
        Sigma_bar = [], z_bar = []\<rparr>
     (\<lambda>name indices. if name = ''sigma'' then 2 else 1) sigma_trust_region
   \<and> \<not> satisfied
     \<lparr>main_X = [], main_U = [], main_sigma = 1, A_bar = [], B_bar = [], C_bar = [],
        Sigma_bar = [], z_bar = []\<rparr>
     (\<lambda>name indices. if name = ''sigma'' then 3 else 1) sigma_trust_region"
  by (simp add: sigma_trust_region_iff [THEN conjunct2])

section \<open>The dynamics equalities and the virtual control\<close>

lemma eval_affine_append:
  "eval_affine l x (a @ b) = eval_affine l x a + eval_affine l x b"
  by (simp add: eval_affine_def)

lemma eval_affine_plus_expr:
  "eval_affine l x (plus_expr a b) = eval_affine l x a + eval_affine l x b"
  by (simp add: plus_expr_def eval_affine_append)

lemma eval_affine_times_var:
  "eval_affine l x (times_var p (var name indices)) = get_value l p * x name indices"
  by (simp add: times_var_def var_def eval_affine_def)

lemma eval_affine_constant_term:
  "eval_affine l x (constant_term p) = get_value l p"
  by (simp add: constant_term_def eval_affine_def)

lemma get_value_param: "get_value l (param a) = deref l a"
  by (simp add: param_def)

lemma eval_affine_fold:
  "eval_affine l x
     (fold (\<lambda>c e. plus_expr e (times_var (param (P c)) (var name (I c)))) cs e)
   = eval_affine l x e + (\<Sum>c\<leftarrow>cs. deref l (P c) * x name (I c))"
  by (induction cs arbitrary: e)
     (simp_all add: eval_affine_plus_expr eval_affine_times_var get_value_param)

lemma satisfied_dynamics_equality:
  "satisfied l x (dynamics_equality n m k row) =
     (x ''X'' [row, k + 1] =
        (\<Sum>c\<leftarrow>[0..<n]. coeff (A_bar l ! k) row c * x ''X'' [c, k])
      + (\<Sum>c\<leftarrow>[0..<m]. coeff (B_bar l ! k) row c * x ''U'' [c, k])
      + (\<Sum>c\<leftarrow>[0..<m]. coeff (C_bar l ! k) row c * x ''U'' [c, k + 1])
      + coeff (Sigma_bar l ! k) row 0 * x ''sigma'' []
      + coeff (z_bar l ! k) row 0
      + x ''nu'' [row, k])"
  by (auto simp add: dynamics_equality_def Let_def eval_affine_plus_expr eval_affine_times_var
      eval_affine_constant_term eval_affine_fold get_value_param)

lemma virtual_control_absorbs:
  "\<exists>nu. \<forall>k row. satisfied l (x(''nu'' := nu)) (dynamics_equality n m k row)"
proof -
  define rhs where "rhs k row =
        (\<Sum>c\<leftarrow>[0..<n]. coeff (A_bar l ! k) row c * x ''X'' [c, k])
      + (\<Sum>c\<leftarrow>[0..<m]. coeff (B_bar l ! k) row c * x ''U'' [c, k])
      + (\<Sum>c\<leftarrow>[0..<m]. coeff (C_bar l ! k) row c * x ''U'' [c, k + 1])
      + coeff (Sigma_bar l ! k) row 0 * x ''sigma'' []
      + coeff (z_bar l ! k) row 0" for k row
  define nu :: "nat list \<Rightarrow> real" where
    "nu indices = (case indices of [row, k] \<Rightarrow> x ''X'' [row, k + 1] - rhs k row | _ \<Rightarrow> 0)"
    for indices
  have "satisfied l (x(''nu'' := nu)) (dynamics_equality n m k row)" for k row
    unfolding satisfied_dynamics_equality by (simp add: nu_def rhs_def)
  then show ?thesis by blast
qed

lemma constraints_fold_add:
  "constraints (fold (\<lambda>r s. add_constraint (f r) s) rs s) = constraints s @ map f rs"
  by (induction rs arbitrary: s) (simp_all add: add_constraint_def)

lemma constraints_add_dynamics_aux:
  "constraints (fold (\<lambda>k s. fold (\<lambda>r s. add_constraint (f k r) s) rs s) ks s)
     = constraints s @ concat (map (\<lambda>k. map (f k) rs) ks)"
  by (induction ks arbitrary: s) (simp_all add: constraints_fold_add)

lemma constraints_add_dynamics:
  "constraints (add_dynamics_constraints n m kk s)
     = constraints s @ concat (map (\<lambda>k. map (dynamics_equality n m k) [0..<n]) [0..<kk - 1])"
  unfolding add_dynamics_constraints_def by (rule constraints_add_dynamics_aux)

lemma constraints_declare_problem:
  "constraints (declare_problem n m kk)
     = concat (map (\<lambda>k. map (dynamics_equality n m k) [0..<n]) [0..<kk - 1])
       @ [SecondOrderConeConstraint (virtual_control_vector n kk)
            (times_var (Constant 1) (var ''norm2_nu'' [])),
          sigma_trust_region]"
  by (simp add: declare_problem_def Let_def add_constraint_def add_minimization_term_def
      create_tensor_variable_def constraints_add_dynamics EcosWrapper_new_def)


text \<open>
  C3.  The constraints that the setup declares are, for every interval \<open>k < K - 1\<close> and
  every state row, the equality of the linearized model, followed by the two cone
  constraints.  The equality of interval \<open>k\<close> and row \<open>row\<close> holds exactly when
  \<open>x(k+1) = A\<^sub>k x(k) + B\<^sub>k u(k) + C\<^sub>k u(k+1) + Sigma\<^sub>k sigma + z\<^sub>k + nu(k)\<close> in that row.
  Whatever the values of the coefficients and of the variables \<open>X\<close>, \<open>U\<close> and \<open>sigma\<close>,
  some value of the virtual control \<open>nu\<close> alone satisfies all these equalities.
\<close>

theorem dynamics_equalities_feasible:
  "constraints (declare_problem n m kk)
     = concat (map (\<lambda>k. map (dynamics_equality n m k) [0..<n]) [0..<kk - 1])
       @ [SecondOrderConeConstraint (virtual_control_vector n kk)
            (times_var (Constant 1) (var ''norm2_nu'' [])),
          sigma_trust_region]
   \<and> (\<forall>k row. satisfied l x (dynamics_equality n m k row) =
        (x ''X'' [row, k + 1] =
           (\<Sum>c\<leftarrow>[0..<n]. coeff (A_bar l ! k) row c * x ''X'' [c, k])
         + (\<Sum>c\<leftarrow>[0..<m]. coeff (B_bar l ! k) row c * x ''U'' [c, k])
         + (\<Sum>c\<leftarrow>[0..<m]. coeff (C_bar l ! k) row c * x ''U'' [c, k + 1])
         + coeff (Sigma_bar l ! k) row 0 * x ''sigma'' []
         + coeff (z_bar l ! k) row 0
         + x ''nu'' [row, k]))
   \<and> (\<exists>nu. \<forall>k row. satisfied l (x(''nu'' := nu)) (dynamics_equality n m k row))"
  using constraints_declare_problem satisfied_dynamics_equality virtual_control_absorbs
  by blast

theorem dynamics_equalities_feasible_witness:
  "\<exists>nu. satisfied
          \<lparr>main_X = [], main_U = [], main_sigma = 1, A_bar = [[[2]], [[3]]], B_bar = [[[1]], [[1]]],
             C_bar = [[[1]], [[1]]], Sigma_bar = [[[5]], [[5]]], z_bar = [[[7]], [[7]]]\<rparr>
          ((\<lambda>name indices. 1)(''nu'' := nu)) (dynamics_equality 1 1 0 0)
      \<and> satisfied
          \<lparr>main_X = [], main_U = [], main_sigma = 1, A_bar = [[[2]], [[3]]], B_bar = [[[1]], [[1]]],
             C_bar = [[[1]], [[1]]], Sigma_bar = [[[5]], [[5]]], z_bar = [[[7]], [[7]]]\<rparr>
          ((\<lambda>name indices. 1)(''nu'' := nu)) (dynamics_equality 1 1 1 0)"
  using dynamics_equalities_feasible [of 1 1 3
      "\<lparr>main_X = [], main_U = [], main_sigma = 1, A_bar = [[[2]], [[3]]], B_bar = [[[1]], [[1]]],
             C_bar = [[[1]], [[1]]], Sigma_bar = [[[5]], [[5]]], z_bar = [[[7]], [[7]]]\<rparr>"
      "\<lambda>name indices. 1"]
  by blast

section \<open>The interval width\<close>

text \<open>
  C10.  The interval width is \<open>1/(K - 1)\<close> with \<open>K = 50\<close>, that is \<open>1/49\<close>: it is
  positive, and so is the initial step \<open>dt/10\<close>; for every number of points from two on
  the divisor \<open>K - 1\<close> is not zero and the width is positive.  The \<open>dt\<close> by which
  \<^verbatim>\<open>operator()\<close> divides \<open>t\<close> is this width, so that divisor is never zero.
\<close>

theorem interval_width_positive:
  "main_dt = 1 / 49 \<and> 0 < main_dt \<and> 0 < main_dt / 10
   \<and> dt (interval_ODE mdl kk l k) = interval_width kk
   \<and> (2 \<le> kk \<longrightarrow> interval_width kk = 1 / real (kk - 1) \<and> real (kk - 1) \<noteq> 0
         \<and> 0 < interval_width kk \<and> 0 < interval_width kk / 10
         \<and> dt (interval_ODE mdl kk l k) \<noteq> 0)"
  by (simp add: main_dt_def interval_width_def K_def interval_ODE_def)

theorem interval_width_positive_witness:
  "0 < interval_width 3 \<and> 0 < interval_width 3 / 10
   \<and> dt (interval_ODE scenario_model 3
           \<lparr>main_X = [[0, 0, 0]], main_U = [[0, 0, 0]], main_sigma = 1, A_bar = [], B_bar = [],
              C_bar = [], Sigma_bar = [], z_bar = []\<rparr> 0) \<noteq> 0"
  using interval_width_positive [of scenario_model 3
      "\<lparr>main_X = [[0, 0, 0]], main_U = [[0, 0, 0]], main_sigma = 1, A_bar = [], B_bar = [],
              C_bar = [], Sigma_bar = [], z_bar = []\<rparr>" 0]
  by simp

section \<open>The discretization of an interval\<close>

lemma store_interval_frame:
  "main_X (store_interval mdl l k V) = main_X l"
  "main_U (store_interval mdl l k V) = main_U l"
  "main_sigma (store_interval mdl l k V) = main_sigma l"
  "arrays_sized kk (store_interval mdl l k V) = arrays_sized kk l"
  by (simp_all add: store_interval_def Let_def arrays_sized_def)

lemma store_interval_other:
  "j \<noteq> k \<Longrightarrow> affine_model_at (store_interval mdl l k V) j = affine_model_at l j"
  by (simp add: store_interval_def Let_def affine_model_at_def)

lemma store_interval_at:
  assumes "arrays_sized kk l" "k < kk - 1"
  shows "affine_model_at (store_interval mdl l k V) k =
     (let n = n_states mdl; m = n_inputs mdl; A = block V 0 1 n n
      in (A, mat_mul m A (block V 0 (1 + n) n m), mat_mul m A (block V 0 (1 + n + m) n m),
          mat_mul 1 A (block V 0 (1 + n + m + m) n 1),
          mat_mul 1 A (block V 0 (1 + n + m + m + 1) n 1)))"
  using assms
  by (simp add: store_interval_def Let_def affine_model_at_def arrays_sized_def add.assoc)

lemma integrate_interval_cong:
  "main_X l' = main_X l \<Longrightarrow> main_U l' = main_U l \<Longrightarrow> main_sigma l' = main_sigma l \<Longrightarrow>
     integrate_interval lib fuel mdl kk l' k = integrate_interval lib fuel mdl kk l k"
  by (simp add: integrate_interval_def interval_ODE_def)

lemma discretize_interval_frame:
  assumes "discretize_interval lib fuel mdl kk k l = Some l'"
  shows "main_X l' = main_X l \<and> main_U l' = main_U l \<and> main_sigma l' = main_sigma l
       \<and> arrays_sized kk' l' = arrays_sized kk' l
       \<and> (j \<noteq> k \<longrightarrow> affine_model_at l' j = affine_model_at l j)"
  using assms
  by (auto simp add: discretize_interval_def store_interval_frame store_interval_other)

lemma discretize_all_frame:
  assumes "discretize_all lib fuel mdl kk ks l = Some l'"
  shows "main_X l' = main_X l \<and> main_U l' = main_U l \<and> main_sigma l' = main_sigma l
       \<and> arrays_sized kk' l' = arrays_sized kk' l
       \<and> (j \<notin> set ks \<longrightarrow> affine_model_at l' j = affine_model_at l j)"
  using assms
proof (induction ks arbitrary: l)
  case Nil
  then show ?case by simp
next
  case (Cons k ks)
  from Cons.prems obtain l1 where
    step: "discretize_interval lib fuel mdl kk k l = Some l1"
    and rest: "discretize_all lib fuel mdl kk ks l1 = Some l'"
    by (auto split: option.splits)
  from Cons.IH [OF rest] discretize_interval_frame [OF step, of kk' j]
  show ?case by auto
qed

lemma discretize_all_at:
  assumes "discretize_all lib fuel mdl kk ks l = Some l'"
    and "distinct ks" and "k \<in> set ks" and "arrays_sized kk l" and "k < kk - 1"
  shows "\<exists>V. integrate_interval lib fuel mdl kk l k = Some V
           \<and> affine_model_at l' k = affine_model_at (store_interval mdl l k V) k"
  using assms
proof (induction ks arbitrary: l)
  case Nil
  then show ?case by simp
next
  case (Cons j ks)
  from Cons.prems(1) obtain l1 where
    step: "discretize_interval lib fuel mdl kk j l = Some l1"
    and rest: "discretize_all lib fuel mdl kk ks l1 = Some l'"
    by (auto split: option.splits)
  note f1 = discretize_interval_frame [OF step]
  show ?case
  proof (cases "j = k")
    case True
    with Cons.prems(2) have notin: "k \<notin> set ks" by simp
    from step True obtain V where
      V: "integrate_interval lib fuel mdl kk l k = Some V" and l1: "l1 = store_interval mdl l k V"
      by (auto simp add: discretize_interval_def)
    from discretize_all_frame [OF rest, of kk k] notin
    have "affine_model_at l' k = affine_model_at l1 k" by simp
    with V l1 show ?thesis by simp
  next
    case False
    with Cons.prems have k: "k \<in> set ks" and d: "distinct ks" by simp_all
    have sized: "arrays_sized kk l1" using f1 [of kk] Cons.prems(4) by simp
    from Cons.IH [OF rest d k sized Cons.prems(5)] obtain V where
      V: "integrate_interval lib fuel mdl kk l1 k = Some V"
      and at: "affine_model_at l' k = affine_model_at (store_interval mdl l1 k V) k"
      by blast
    have "integrate_interval lib fuel mdl kk l1 k = integrate_interval lib fuel mdl kk l k"
      by (rule integrate_interval_cong) (simp_all add: f1)
    with V have V': "integrate_interval lib fuel mdl kk l k = Some V" by simp
    have "affine_model_at (store_interval mdl l1 k V) k
                 = affine_model_at (store_interval mdl l k V) k"
      using store_interval_at [OF sized Cons.prems(5)]
        store_interval_at [OF Cons.prems(4) Cons.prems(5)] by simp
    with at have "affine_model_at l' k = affine_model_at (store_interval mdl l k V) k" by simp
    with V' show ?thesis by blast
  qed
qed




lemma mat_dim_zero_mat: "mat_dim r c (zero_mat r c)"
  by (simp add: mat_dim_def zero_mat_def list_all_length)

lemma mat_dim_identity_mat: "mat_dim n n (identity_mat n)"
  by (simp add: mat_dim_def identity_mat_def list_all_length)

lemma block_zero_mat:
  "r0 + nr \<le> r \<Longrightarrow> c0 + nc \<le> c \<Longrightarrow> block (zero_mat r c) r0 c0 nr nc = zero_mat nr nc"
  by (auto simp add: block_def zero_mat_def min_def)

lemma mat_dim_col:
  "mat_dim r c X \<Longrightarrow> k < c \<Longrightarrow> mat_dim r 1 (col X k)"
  by (simp add: col_def block_def mat_dim_def list_all_length)

lemma initial_V_blocks:
  fixes mdl :: "real Model"
  defines "n \<equiv> n_states mdl" and "m \<equiv> n_inputs mdl"
  assumes X: "mat_dim n kk X" and k: "k < kk"
  shows "mat_dim n (n_V_states mdl) (initial_V mdl X k)"
    and "col (initial_V mdl X k) 0 = col X k"
    and "block (initial_V mdl X k) 0 1 n n = identity_mat n"
    and "block (initial_V mdl X k) 0 (1 + n) n m = zero_mat n m"
    and "block (initial_V mdl X k) 0 (1 + n + m) n m = zero_mat n m"
    and "block (initial_V mdl X k) 0 (1 + n + m + m) n 1 = zero_mat n 1"
    and "block (initial_V mdl X k) 0 (1 + n + m + m + 1) n 1 = zero_mat n 1"
proof -
  let ?N = "3 + n + 2 * m"
  let ?Z = "zero_mat n ?N :: real matrix"
  let ?V1 = "set_block ?Z 0 0 (col X k)"
  let ?V = "set_block ?V1 0 1 (identity_mat n)"
  have V: "initial_V mdl X k = ?V"
    by (simp add: initial_V_def Let_def set_col_def n_V_states_def n_def m_def)
  have z: "mat_dim n ?N ?Z" by (rule mat_dim_zero_mat)
  have c: "mat_dim n 1 (col X k)" by (rule mat_dim_col [OF X k])
  have i: "mat_dim n n (identity_mat n :: real matrix)" by (rule mat_dim_identity_mat)
  have v1: "mat_dim n ?N ?V1" by (rule mat_dim_set_block [OF z c]) simp
  have v: "mat_dim n ?N ?V" by (rule mat_dim_set_block [OF v1 i]) simp
  show "mat_dim n (n_V_states mdl) (initial_V mdl X k)"
    using v by (simp add: V n_V_states_def n_def m_def)
  have len: "length ?V = n" using v by (simp add: mat_dim_def)
  have "col ?V 0 = block ?V 0 0 n 1" by (simp only: col_def [of ?V 0] len)
  also have "\<dots> = block ?V1 0 0 n 1" by (rule block_set_block_left [OF v1 i]) simp_all
  also have "\<dots> = col X k" by (rule block_set_block_same [OF z c]) simp
  finally show "col (initial_V mdl X k) 0 = col X k" by (simp only: V)
  show "block (initial_V mdl X k) 0 1 n n = identity_mat n"
    unfolding V by (rule block_set_block_same [OF v1 i]) simp
  have right: "block ?V 0 c1 n w1 = zero_mat n w1" if "1 + n \<le> c1" "c1 + w1 \<le> ?N" for c1 w1
  proof -
    have "block ?V 0 c1 n w1 = block ?V1 0 c1 n w1"
      by (rule block_set_block_right [OF v1 i]) (use that in simp_all)
    also have "\<dots> = block ?Z 0 c1 n w1"
      by (rule block_set_block_right [OF z c]) (use that in simp_all)
    also have "\<dots> = zero_mat n w1"
      by (rule block_zero_mat) (use that in simp_all)
    finally show ?thesis .
  qed
  show "block (initial_V mdl X k) 0 (1 + n) n m = zero_mat n m"
    unfolding V by (rule right) simp_all
  show "block (initial_V mdl X k) 0 (1 + n + m) n m = zero_mat n m"
    unfolding V by (rule right) simp_all
  show "block (initial_V mdl X k) 0 (1 + n + m + m) n 1 = zero_mat n 1"
    unfolding V by (rule right) simp_all
  show "block (initial_V mdl X k) 0 (1 + n + m + m + 1) n 1 = zero_mat n 1"
    unfolding V by (rule right) simp_all
qed

lemma linearize_at:
  assumes lin: "linearize lib fuel mdl kk l = Some l'"
    and k: "k < kk - 1" and sized: "arrays_sized kk l"
  shows "\<exists>V. integrate_interval lib fuel mdl kk l k = Some V
           \<and> affine_model_at l' k =
               (let n = n_states mdl; m = n_inputs mdl; A = block V 0 1 n n
                in (A, mat_mul m A (block V 0 (1 + n) n m), mat_mul m A (block V 0 (1 + n + m) n m),
                    mat_mul 1 A (block V 0 (1 + n + m + m) n 1),
                    mat_mul 1 A (block V 0 (1 + n + m + m + 1) n 1)))"
proof -
  from discretize_all_at [OF lin [unfolded linearize_def] _ _ sized k] k
  obtain V where V: "integrate_interval lib fuel mdl kk l k = Some V"
    and at: "affine_model_at l' k = affine_model_at (store_interval mdl l k V) k"
    by auto
  from at show ?thesis
    unfolding store_interval_at [OF sized k] using V by blast
qed

text \<open>
  C2.  When the loop over the intervals returns, the entry of every interval \<open>k < K - 1\<close>
  in the five arrays comes from one integration that started from the freshly
  initialized augmented state of that interval alone: its state column is column \<open>k\<close>
  of the reference trajectory, its STM block is the identity and its four sensitivity
  blocks are zero; and with \<open>V\<close> the state the integration returns at \<open>t = dt\<close>, the entry
  is \<open>A = Phi\<close>, \<open>B = A\<close> times the first control-sensitivity block, \<open>C = A\<close> times the
  second, \<open>Sigma = A\<close> times the sigma-sensitivity block and \<open>z = A\<close> times the bias
  block.  The integration is the one of the variables \<open>X\<close>, \<open>U\<close>, \<open>sigma\<close> as they are when
  the loop starts, with the stepper the loop was given: neither the earlier intervals
  nor the earlier content of the arrays enter.
\<close>

theorem interval_affine_model:
  fixes mdl :: "real Model" and l l' :: locals and k :: nat
  defines "n \<equiv> n_states mdl" and "m \<equiv> n_inputs mdl"
  defines "V0 \<equiv> initial_V mdl (main_X l) k"
  assumes lin: "linearize lib fuel mdl kk l = Some l'"
    and k: "k < kk - 1" and sized: "arrays_sized kk l"
    and X: "mat_dim n kk (main_X l)"
  shows "col V0 0 = col (main_X l) k
       \<and> block V0 0 1 n n = identity_mat n
       \<and> block V0 0 (1 + n) n m = zero_mat n m
       \<and> block V0 0 (1 + n + m) n m = zero_mat n m
       \<and> block V0 0 (1 + n + m + m) n 1 = zero_mat n 1
       \<and> block V0 0 (1 + n + m + m + 1) n 1 = zero_mat n 1
       \<and> (\<exists>V. integrate_adaptive fuel (make_controlled (1 / 10 ^ 4) (1 / 10 ^ 4) (stepper lib))
                 (DiscretizationODE_call (matrix_inverse lib) (interval_ODE mdl kk l k))
                 V0 0 (interval_width kk) (interval_width kk / 10) = Some V
              \<and> A_bar l' ! k = block V 0 1 n n
              \<and> B_bar l' ! k = mat_mul m (block V 0 1 n n) (block V 0 (1 + n) n m)
              \<and> C_bar l' ! k = mat_mul m (block V 0 1 n n) (block V 0 (1 + n + m) n m)
              \<and> Sigma_bar l' ! k = mat_mul 1 (block V 0 1 n n) (block V 0 (1 + n + m + m) n 1)
              \<and> z_bar l' ! k = mat_mul 1 (block V 0 1 n n) (block V 0 (1 + n + m + m + 1) n 1))"
proof -
  have k': "k < kk" using k by simp
  note iv = initial_V_blocks [OF X [unfolded n_def] k', folded n_def m_def V0_def]
  from linearize_at [OF lin k sized] obtain V where
    V: "integrate_interval lib fuel mdl kk l k = Some V"
    and at: "affine_model_at l' k =
               (let n = n_states mdl; m = n_inputs mdl; A = block V 0 1 n n
                in (A, mat_mul m A (block V 0 (1 + n) n m), mat_mul m A (block V 0 (1 + n + m) n m),
                    mat_mul 1 A (block V 0 (1 + n + m + m) n 1),
                    mat_mul 1 A (block V 0 (1 + n + m + m + 1) n 1)))"
    by blast
  have "integrate_adaptive fuel (make_controlled (1 / 10 ^ 4) (1 / 10 ^ 4) (stepper lib))
                 (DiscretizationODE_call (matrix_inverse lib) (interval_ODE mdl kk l k))
                 V0 0 (interval_width kk) (interval_width kk / 10) = Some V"
    using V by (simp add: integrate_interval_def V0_def)
  moreover from at have "A_bar l' ! k = block V 0 1 n n"
      "B_bar l' ! k = mat_mul m (block V 0 1 n n) (block V 0 (1 + n) n m)"
      "C_bar l' ! k = mat_mul m (block V 0 1 n n) (block V 0 (1 + n + m) n m)"
      "Sigma_bar l' ! k = mat_mul 1 (block V 0 1 n n) (block V 0 (1 + n + m + m) n 1)"
      "z_bar l' ! k = mat_mul 1 (block V 0 1 n n) (block V 0 (1 + n + m + m + 1) n 1)"
    by (simp_all add: affine_model_at_def Let_def n_def m_def)
  ultimately show ?thesis
    using iv(2-7) by blast
qed



lemma scenario_integrate_interval:
  "integrate_interval scenario_library 4 scenario_model 2 scenario_locals 0
     = Some [[1 / 1000, 1, 1 / 2000, 1 / 2000, 1, - (1 / 1000)]]"
proof -
  define st where "st = make_controlled (1 / 10 ^ 4) (1 / 10 ^ 4) (stepper scenario_library)"
  define sys where "sys = DiscretizationODE_call (matrix_inverse scenario_library)
                            (interval_ODE scenario_model 2 scenario_locals 0)"
  have s1: "try_step st sys [[0, 1, 0, 0, 0, 0]] 0 (1 / 10)
      = (success, [[1 / 10000, 1, 1 / 200000, 19 / 200000, 1 / 10, - (1 / 10000)]], 1 / 10, 1 / 5)"
    unfolding st_def sys_def by code_simp
  have s2: "try_step st sys [[1 / 10000, 1, 1 / 200000, 19 / 200000, 1 / 10, - (1 / 10000)]]
        (1 / 10) (1 / 5)
      = (success, [[3 / 10000, 1, 9 / 200000, 51 / 200000, 3 / 10, - (3 / 10000)]], 3 / 10, 2 / 5)"
    unfolding st_def sys_def by code_simp
  have s3: "try_step st sys [[3 / 10000, 1, 9 / 200000, 51 / 200000, 3 / 10, - (3 / 10000)]]
        (3 / 10) (2 / 5)
      = (success, [[7 / 10000, 1, 49 / 200000, 91 / 200000, 7 / 10, - (7 / 10000)]], 7 / 10, 2 / 5)"
    unfolding st_def sys_def by code_simp
  have s4: "try_step st sys [[7 / 10000, 1, 49 / 200000, 91 / 200000, 7 / 10, - (7 / 10000)]]
        (7 / 10) (3 / 10)
      = (success, [[1 / 1000, 1, 1 / 2000, 1 / 2000, 1, - (1 / 1000)]], 1, 3 / 5)"
    unfolding st_def sys_def by code_simp
  have v0: "initial_V scenario_model (main_X scenario_locals) 0 = [[0, 1, 0, 0, 0, 0]]"
    by code_simp
  have w: "interval_width 2 = 1"
    by (simp add: interval_width_def)
  have "integrate_adaptive 4 st sys [[0, 1, 0, 0, 0, 0]] 0 1 (1 / 10)
          = Some [[1 / 1000, 1, 1 / 2000, 1 / 2000, 1, - (1 / 1000)]]"
    by (simp add: eval_nat_numeral less_with_sign_def epsilon_def s1 s2 s3 s4)
  then show ?thesis
    by (simp add: integrate_interval_def v0 w st_def sys_def)
qed

lemma scenario_linearize:
  "linearize scenario_library 4 scenario_model 2 scenario_locals
     = Some \<lparr>main_X = [[0, 0]], main_U = [[1, 1]], main_sigma = 1 / 1000,
             A_bar = [[[1]]], B_bar = [[[1 / 2000]]], C_bar = [[[1 / 2000]]],
             Sigma_bar = [[[1]]], z_bar = [[[- (1 / 1000)]]]\<rparr>"
proof -
  have "store_interval scenario_model scenario_locals 0
          [[1 / 1000, 1, 1 / 2000, 1 / 2000, 1, - (1 / 1000)]]
        = \<lparr>main_X = [[0, 0]], main_U = [[1, 1]], main_sigma = 1 / 1000,
             A_bar = [[[1]]], B_bar = [[[1 / 2000]]], C_bar = [[[1 / 2000]]],
             Sigma_bar = [[[1]]], z_bar = [[[- (1 / 1000)]]]\<rparr>"
    by code_simp
  then show ?thesis
    by (simp add: linearize_def discretize_interval_def scenario_integrate_interval)
qed

theorem interval_affine_model_witness:
  "block (initial_V scenario_model (main_X scenario_locals) 0) 0 1
       (n_states (scenario_model :: real Model)) (n_states (scenario_model :: real Model)) = identity_mat (n_states (scenario_model :: real Model))
   \<and> (\<exists>V. integrate_adaptive 4 (make_controlled (1 / 10 ^ 4) (1 / 10 ^ 4) (stepper scenario_library))
              (DiscretizationODE_call (matrix_inverse scenario_library)
                 (interval_ODE scenario_model 2 scenario_locals 0))
              (initial_V scenario_model (main_X scenario_locals) 0) 0
              (interval_width 2) (interval_width 2 / 10) = Some V
          \<and> [[1]] = block V 0 1 (n_states (scenario_model :: real Model)) (n_states (scenario_model :: real Model))
          \<and> [[1 / 2000]] = mat_mul (n_inputs (scenario_model :: real Model))
                (block V 0 1 (n_states (scenario_model :: real Model)) (n_states (scenario_model :: real Model)))
                (block V 0 (1 + n_states (scenario_model :: real Model)) (n_states (scenario_model :: real Model))
                   (n_inputs (scenario_model :: real Model))))"
proof -
  have k: "0 < (2::nat) - 1" by simp
  have sized: "arrays_sized 2 scenario_locals" by code_simp
  have X: "mat_dim (n_states (scenario_model :: real Model)) 2 (main_X scenario_locals)" by code_simp
  note th = interval_affine_model [OF scenario_linearize k sized X]
  note i = th [THEN conjunct2, THEN conjunct1]
  from th [THEN conjunct2, THEN conjunct2, THEN conjunct2, THEN conjunct2, THEN conjunct2,
      THEN conjunct2]
  obtain V where
    V: "integrate_adaptive 4 (make_controlled (1 / 10 ^ 4) (1 / 10 ^ 4) (stepper scenario_library))
              (DiscretizationODE_call (matrix_inverse scenario_library)
                 (interval_ODE scenario_model 2 scenario_locals 0))
              (initial_V scenario_model (main_X scenario_locals) 0) 0
              (interval_width 2) (interval_width 2 / 10) = Some V"
    and A: "A_bar \<lparr>main_X = [[0, 0]], main_U = [[1, 1]], main_sigma = 1 / 1000,
             A_bar = [[[1]]], B_bar = [[[1 / 2000]]], C_bar = [[[1 / 2000]]],
             Sigma_bar = [[[1]]], z_bar = [[[- (1 / 1000)]]]\<rparr> ! 0
            = block V 0 1 (n_states (scenario_model :: real Model)) (n_states (scenario_model :: real Model))"
    and B: "B_bar \<lparr>main_X = [[0, 0]], main_U = [[1, 1]], main_sigma = 1 / 1000,
             A_bar = [[[1]]], B_bar = [[[1 / 2000]]], C_bar = [[[1 / 2000]]],
             Sigma_bar = [[[1]]], z_bar = [[[- (1 / 1000)]]]\<rparr> ! 0
            = mat_mul (n_inputs (scenario_model :: real Model))
                (block V 0 1 (n_states (scenario_model :: real Model)) (n_states (scenario_model :: real Model)))
                (block V 0 (1 + n_states (scenario_model :: real Model)) (n_states (scenario_model :: real Model))
                   (n_inputs (scenario_model :: real Model)))"
    by (elim exE conjE) (rule that)
  from A have A': "[[1]] = block V 0 1 (n_states (scenario_model :: real Model)) (n_states (scenario_model :: real Model))"
    by simp
  from B have B': "[[1 / 2000]] = mat_mul (n_inputs (scenario_model :: real Model))
                (block V 0 1 (n_states (scenario_model :: real Model)) (n_states (scenario_model :: real Model)))
                (block V 0 (1 + n_states (scenario_model :: real Model)) (n_states (scenario_model :: real Model))
                   (n_inputs (scenario_model :: real Model)))"
    by simp
  from i V A' B' show ?thesis by (intro conjI exI [of _ V])
qed

section \<open>Static dynamics\<close>

lemma dot_zero_right: "dot xs (replicate k 0) = (0::real)"
proof (induction xs arbitrary: k)
  case Nil
  then show ?case by (simp add: dot_def)
next
  case (Cons x xs)
  show ?case
  proof (cases k)
    case 0
    then show ?thesis by (simp add: dot_def)
  next
    case (Suc j)
    with Cons [of j] show ?thesis by (simp add: dot_def)
  qed
qed

lemma dot_zero_left: "dot (replicate k 0) ys = (0::real)"
proof (induction ys arbitrary: k)
  case Nil
  then show ?case by (simp add: dot_def)
next
  case (Cons y ys)
  show ?case
  proof (cases k)
    case 0
    then show ?thesis by (simp add: dot_def)
  next
    case (Suc j)
    with Cons [of j] show ?thesis by (simp add: dot_def)
  qed
qed

lemma column_zero_mat: "j < c \<Longrightarrow> column (zero_mat r c) j = replicate r (0::real)"
  by (simp add: column_def zero_mat_def)

lemma mat_mul_zero_right: "mat_mul c A (zero_mat k c) = zero_mat (length A) (c::nat)"
  for A :: "real matrix"
  by (rule nth_equalityI)
     (auto simp add: mat_mul_def zero_mat_def column_zero_mat [unfolded zero_mat_def] dot_zero_right
       intro!: nth_equalityI)

lemma mat_mul_zero_left: "mat_mul c (zero_mat r k) B = (zero_mat r c :: real matrix)"
  by (rule nth_equalityI)
     (auto simp add: mat_mul_def zero_mat_def dot_zero_left intro!: nth_equalityI)

lemma smult_zero_mat: "smult s (zero_mat r c) = (zero_mat r c :: real matrix)"
  by (simp add: smult_def zero_mat_def)

lemma mult_s_zero_mat: "mult_s (zero_mat r c) s = (zero_mat r c :: real matrix)"
  by (simp add: mult_s_def zero_mat_def)

lemma mat_neg_zero_mat: "mat_neg (zero_mat r c) = (zero_mat r c :: real matrix)"
  by (simp add: mat_neg_def zero_mat_def)

lemma mat_sub_zero_mat: "mat_sub (zero_mat r c) (zero_mat r c) = (zero_mat r c :: real matrix)"
  by (simp add: mat_sub_def zero_mat_def zip_replicate map_replicate_const)

lemma mat_add_zero_right:
  fixes x :: "real matrix"
  shows "mat_dim r c x \<Longrightarrow> mat_add x (zero_mat r c) = x"
  by (rule nth_equalityI)
     (auto simp add: mat_add_def zero_mat_def mat_dim_def list_all_length intro!: nth_equalityI)

lemma zeros_like_zero_mat:
  "mat_dim r c x \<Longrightarrow> zeros_like x = zero_mat r c"
  by (rule nth_equalityI)
     (auto simp add: zeros_like_def zero_mat_def mat_dim_def list_all_length intro!: nth_equalityI)

lemma block_nth:
  "mat_dim r c M \<Longrightarrow> i < r \<Longrightarrow> c0 + w \<le> c \<Longrightarrow> j < w \<Longrightarrow>
     block M 0 c0 r w ! i ! j = M ! i ! (c0 + j)"
  by (simp add: block_def mat_dim_def list_all_length)


lemma entry_of_zero_block:
  fixes R :: "real matrix"
  assumes "mat_dim n N R" "block R 0 c0 n w = zero_mat n w" "c0 + w \<le> N" "i < n"
    "c0 \<le> j" "j < c0 + w"
  shows "R ! i ! j = 0"
proof -
  have "block R 0 c0 n w ! i ! (j - c0) = R ! i ! (c0 + (j - c0))"
    by (rule block_nth [OF assms(1) assms(4) assms(3)]) (use assms in simp)
  with assms show ?thesis by (simp add: zero_mat_def)
qed

lemma all_blocks_zero:
  fixes R :: "real matrix"
  assumes R: "mat_dim n (3 + n + 2 * m) R"
    and b1: "block R 0 0 n 1 = zero_mat n 1"
    and b2: "block R 0 1 n n = zero_mat n n"
    and b3: "block R 0 (1 + n) n m = zero_mat n m"
    and b4: "block R 0 (1 + n + m) n m = zero_mat n m"
    and b5: "block R 0 (1 + n + m + m) n 1 = zero_mat n 1"
    and b6: "block R 0 (1 + n + m + m + 1) n 1 = zero_mat n 1"
  shows "R = zero_mat n (3 + n + 2 * m)"
proof (rule nth_equalityI)
  show "length R = length (zero_mat n (3 + n + 2 * m) :: real matrix)"
    using R by (simp add: mat_dim_def zero_mat_def)
next
  fix i assume "i < length R"
  then have i: "i < n" using R by (simp add: mat_dim_def)
  have len: "length (R ! i) = 3 + n + 2 * m"
    by (rule mat_dim_nth [OF R i])
  have "R ! i ! j = 0" if j: "j < 3 + n + 2 * m" for j
  proof -
    consider "j < 1" | "1 \<le> j" "j < 1 + n" | "1 + n \<le> j" "j < 1 + n + m"
      | "1 + n + m \<le> j" "j < 1 + n + m + m" | "1 + n + m + m \<le> j" "j < 1 + n + m + m + 1"
      | "1 + n + m + m + 1 \<le> j" "j < 1 + n + m + m + 1 + 1"
      using j by linarith
    then show ?thesis
    proof cases
      case 1
      show ?thesis by (rule entry_of_zero_block [OF R b1 _ i]) (use 1 in simp_all)
    next
      case 2
      show ?thesis by (rule entry_of_zero_block [OF R b2 _ i]) (use 2 in simp_all)
    next
      case 3
      show ?thesis by (rule entry_of_zero_block [OF R b3 _ i]) (use 3 in simp_all)
    next
      case 4
      show ?thesis by (rule entry_of_zero_block [OF R b4 _ i]) (use 4 in simp_all)
    next
      case 5
      show ?thesis by (rule entry_of_zero_block [OF R b5 _ i]) (use 5 in simp_all)
    next
      case 6
      show ?thesis by (rule entry_of_zero_block [OF R b6 _ i]) (use 6 in simp_all)
    qed
  qed
  then have "R ! i = replicate (3 + n + 2 * m) 0"
    using len by (intro nth_equalityI) simp_all
  with i show "R ! i = zero_mat n (3 + n + 2 * m) ! i"
    by (simp add: zero_mat_def)
qed

lemma static_call_zero:
  fixes self :: "real DiscretizationODE"
  defines "n \<equiv> n_states (model self)" and "m \<equiv> n_inputs (model self)"
  assumes f: "\<And>x u. ode (model self) x u = zero_mat n 1"
    and dfdx: "\<And>x u. state_jacobian (model self) x u = zero_mat n n"
    and dfdu: "\<And>x u. control_jacobian (model self) x u = zero_mat n m"
    and inv: "\<And>M. length (inverse_of M) = n"
    and buffer: "mat_dim n (n_V_states (model self)) dVdt"
  shows "DiscretizationODE_call inverse_of self V dVdt t = zero_mat n (n_V_states (model self))"
proof -
  let ?R = "DiscretizationODE_call inverse_of self V dVdt t"
  have M: "mat_dim n (3 + n + 2 * m) dVdt"
    using buffer by (simp add: n_V_states_def n_def m_def)
  have z1: "mat_dim n 1 (zero_mat n 1 :: real matrix)" and zn: "mat_dim n n (zero_mat n n :: real matrix)"
    and zm: "mat_dim n m (zero_mat n m :: real matrix)"
    by (rule mat_dim_zero_mat)+
  have R: "?R = set_block (set_block (set_block (set_block (set_block (set_block dVdt 0 0
          (zero_mat n 1)) 0 1 (zero_mat n n)) 0 (1 + n) (zero_mat n m)) 0 (1 + n + m) (zero_mat n m))
          0 (1 + n + m + m) (zero_mat n 1)) 0 (1 + n + m + m + 1) (zero_mat n 1)"
    unfolding DiscretizationODE_call_unfold
    by (simp only: f dfdx dfdu inv smult_zero_mat mat_mul_zero_left mat_mul_zero_right
        mult_s_zero_mat mat_neg_zero_mat mat_sub_zero_mat flip: n_def m_def)
  note b = six_blocks [OF M z1 zn zm zm z1 z1, folded R]
  have "?R = zero_mat n (3 + n + 2 * m)"
    by (rule all_blocks_zero [OF b])
  then show ?thesis
    by (simp add: n_V_states_def n_def m_def)
qed


lemma lincomb_zero:
  fixes x :: "real matrix"
  assumes x: "mat_dim r c x" and ks: "list_all (\<lambda>k. k = zero_mat r c) ks"
  shows "lincomb x h cs ks = x"
proof -
  have "foldl (\<lambda>acc (c, k). mat_add acc (smult (h * c) k)) x (zip cs ks) = x"
    using ks
  proof (induction ks arbitrary: cs)
    case Nil
    then show ?case by simp
  next
    case (Cons k ks)
    show ?case
    proof (cases cs)
      case Nil
      then show ?thesis by simp
    next
      case (Cons a as)
      with Cons.prems Cons.IH [of as] show ?thesis
        by (simp add: smult_zero_mat mat_add_zero_right [OF x])
    qed
  qed
  then show ?thesis by (simp add: lincomb_def)
qed

lemma rk_stages_zero:
  assumes sys: "\<And>p t'. sys p x t' = Z" and ks: "list_all (\<lambda>k. k = Z) ks"
  shows "list_all (\<lambda>k. k = Z) (rk_stages sys x t h tab ks)"
  using ks by (induction tab arbitrary: ks) (auto simp add: sys)

lemma try_step_static:
  fixes x :: "real matrix"
  assumes sys: "\<And>p t'. sys p x t' = zero_mat r c"
    and x: "mat_dim r c x"
    and accept: "\<And>a b y d h. error_value (stepper_of st) a b y d (zeros_like y) h \<le> 1"
  shows "\<exists>err. try_step st sys x t h = (success, x, t + h, increase_step (stepper_of st) h err)"
proof -
  let ?rk = "stepper_of st"
  let ?ks = "rk_stages sys x t h (zip (nodes ?rk) (coefficients ?rk)) []"
  have ks: "list_all (\<lambda>k. k = zero_mat r c) ?ks"
    by (rule rk_stages_zero [where sys = sys and x = x and Z = "zero_mat r c", OF sys]) simp
  have new: "lincomb x h (weights ?rk) ?ks = x"
    by (rule lincomb_zero [OF x ks])
  have zl: "mat_dim r c (zeros_like x)"
    by (simp add: zeros_like_zero_mat [OF x] mat_dim_zero_mat)
  have err: "lincomb (zeros_like x) h (error_weights ?rk) ?ks = zeros_like x"
    by (rule lincomb_zero [OF zl ks])
  show ?thesis
    using accept [of "eps_abs st" "eps_rel st" x "sys x x t" h]
    by (auto simp add: try_step_def Let_def new err)
qed

lemma integrate_static:
  fixes x :: "real matrix"
  assumes sys: "\<And>p t'. sys p x t' = zero_mat r c"
    and x: "mat_dim r c x"
    and accept: "\<And>a b y d h. error_value (stepper_of st) a b y d (zeros_like y) h \<le> 1"
    and grow: "\<And>h e. 0 < h \<Longrightarrow> h \<le> increase_step (stepper_of st) h e"
    and h0: "0 < h0"
  shows "h0 \<le> h \<Longrightarrow> t_end - t \<le> real fuel * h0 \<Longrightarrow>
           integrate_adaptive fuel st sys x t t_end h = Some x"
proof (induction fuel arbitrary: t h)
  case 0
  then have "\<not> less_with_sign t t_end h"
    using h0 by (simp add: less_with_sign_def epsilon_def)
  then show ?case by simp
next
  case (Suc fuel)
  have hpos: "0 < h" using Suc.prems(1) h0 by linarith
  show ?case
  proof (cases "less_with_sign t t_end h")
    case False
    then show ?thesis by simp
  next
    case True
    then have rem: "epsilon < t_end - t"
      using hpos by (simp add: less_with_sign_def)
    have eps: "0 < epsilon" by (simp add: epsilon_def)
    show ?thesis
    proof (cases "less_with_sign t_end (t + h) h")
      case clipped: True
      from try_step_static [where sys = sys and x = x and r = r and c = c and st = st
          and t = t and h = "t_end - t", OF sys x accept] obtain err where
        step: "try_step st sys x t (t_end - t)
                 = (success, x, t + (t_end - t), increase_step (stepper_of st) (t_end - t) err)"
        by blast
      have "\<not> less_with_sign (t + (t_end - t)) t_end h'" for h'
        using eps by (simp add: less_with_sign_def)
      then show ?thesis
        using True clipped step by simp
    next
      case whole: False
      from try_step_static [where sys = sys and x = x and r = r and c = c and st = st
          and t = t and h = h, OF sys x accept] obtain err where
        step: "try_step st sys x t h = (success, x, t + h, increase_step (stepper_of st) h err)"
        by blast
      have h': "h0 \<le> increase_step (stepper_of st) h err"
        using grow [OF hpos, of err] Suc.prems(1) by linarith
      have "t_end - (t + h) \<le> real fuel * h0"
        using Suc.prems by (simp add: algebra_simps)
      from Suc.IH [OF h' this] show ?thesis
        using True whole step by simp
    qed
  qed
qed

lemma integrate_static_ode:
  fixes self :: "real DiscretizationODE"
  defines "n \<equiv> n_states (model self)" and "m \<equiv> n_inputs (model self)"
  assumes f: "\<And>x u. ode (model self) x u = zero_mat n 1"
    and dfdx: "\<And>x u. state_jacobian (model self) x u = zero_mat n n"
    and dfdu: "\<And>x u. control_jacobian (model self) x u = zero_mat n m"
    and inv: "\<And>M. length (inverse_of M) = n"
    and accept: "\<And>a b y d h. error_value rk a b y d (zeros_like y) h \<le> 1"
    and grow: "\<And>h e. 0 < h \<Longrightarrow> h \<le> increase_step rk h e"
    and fuel: "10 \<le> fuel" and d: "0 < d"
    and V0: "mat_dim n (n_V_states (model self)) V0"
  shows "integrate_adaptive fuel (make_controlled a b rk) (DiscretizationODE_call inverse_of self)
           V0 0 d (d / 10) = Some V0"
proof -
  let ?st = "make_controlled a b rk"
  let ?sys = "DiscretizationODE_call inverse_of self"
  have sys: "?sys p V0 t' = zero_mat n (n_V_states (model self))" for p t'
    unfolding n_def
    by (rule static_call_zero [OF f [unfolded n_def] dfdx [unfolded n_def]
          dfdu [unfolded n_def m_def] inv [unfolded n_def] V0 [unfolded n_def]])
  have st: "stepper_of ?st = rk" by (simp add: make_controlled_def)
  have h0: "0 < d / 10" using d by simp
  have rem: "d - 0 \<le> real fuel * (d / 10)"
  proof -
    have "10 \<le> real fuel" using fuel by simp
    then have "10 * (d / 10) \<le> real fuel * (d / 10)"
      using h0 by (intro mult_right_mono) simp_all
    then show ?thesis by simp
  qed
  show ?thesis
    by (rule integrate_static [where sys = ?sys and r = n and c = "n_V_states (model self)"
          and h0 = "d / 10", OF sys V0 _ _ h0 order_refl rem])
       (simp_all add: st accept grow)
qed

lemma store_initial_V:
  fixes mdl :: "real Model"
  defines "n \<equiv> n_states mdl" and "m \<equiv> n_inputs mdl"
  assumes X: "mat_dim n kk (main_X l)" and k: "k < kk - 1" and sized: "arrays_sized kk l"
  shows "affine_model_at (store_interval mdl l k (initial_V mdl (main_X l) k)) k
           = (identity_mat n, zero_mat n m, zero_mat n m, zero_mat n 1, zero_mat n 1)"
proof -
  have k': "k < kk" using k by simp
  note iv = initial_V_blocks [OF X [unfolded n_def] k', folded n_def m_def]
  have len: "length (identity_mat n :: real matrix) = n"
    by (simp add: identity_mat_def)
  show ?thesis
    unfolding store_interval_at [OF sized k] Let_def n_def [symmetric] m_def [symmetric]
    by (simp only: iv(3-7) mat_mul_zero_right len)
qed

lemma discretize_all_some:
  assumes "\<And>k. k \<in> set ks \<Longrightarrow> integrate_interval lib fuel mdl kk l k \<noteq> None"
  shows "discretize_all lib fuel mdl kk ks l \<noteq> None"
  using assms
proof (induction ks arbitrary: l)
  case Nil
  then show ?case by simp
next
  case (Cons k ks)
  from Cons.prems [of k] obtain V where V: "integrate_interval lib fuel mdl kk l k = Some V"
    by auto
  then have step: "discretize_interval lib fuel mdl kk k l = Some (store_interval mdl l k V)"
    by (simp add: discretize_interval_def)
  have "integrate_interval lib fuel mdl kk (store_interval mdl l k V) j \<noteq> None"
    if "j \<in> set ks" for j
  proof -
    have "integrate_interval lib fuel mdl kk (store_interval mdl l k V) j
            = integrate_interval lib fuel mdl kk l j"
      by (rule integrate_interval_cong) (simp_all add: store_interval_frame)
    with Cons.prems [of j] that show ?thesis by simp
  qed
  from Cons.IH [OF this] step show ?case by simp
qed


lemma interval_width_pos: "2 \<le> kk \<Longrightarrow> 0 < interval_width kk"
  by (simp add: interval_width_def)

lemma linearize_static:
  fixes mdl :: "real Model"
  defines "n \<equiv> n_states mdl" and "m \<equiv> n_inputs mdl"
  assumes f: "\<And>x u. ode mdl x u = zero_mat n 1"
    and dfdx: "\<And>x u. state_jacobian mdl x u = zero_mat n n"
    and dfdu: "\<And>x u. control_jacobian mdl x u = zero_mat n m"
    and inv: "\<And>M. length (matrix_inverse lib M) = n"
    and accept: "\<And>a b y d h. error_value (stepper lib) a b y d (zeros_like y) h \<le> 1"
    and grow: "\<And>h e. 0 < h \<Longrightarrow> h \<le> increase_step (stepper lib) h e"
    and fuel: "10 \<le> fuel" and kk: "2 \<le> kk"
    and X: "mat_dim n kk (main_X l)" and sized: "arrays_sized kk l"
  shows "\<exists>l'. linearize lib fuel mdl kk l = Some l'
           \<and> (\<forall>k<kk - 1. affine_model_at l' k
                 = (identity_mat n, zero_mat n m, zero_mat n m, zero_mat n 1, zero_mat n 1))"
proof -
  have int: "integrate_interval lib fuel mdl kk l k = Some (initial_V mdl (main_X l) k)"
    if k: "k < kk - 1" for k
  proof -
    have k': "k < kk" using k by simp
    have V0: "mat_dim n (n_V_states mdl) (initial_V mdl (main_X l) k)"
      by (rule initial_V_blocks(1) [OF X [unfolded n_def] k', folded n_def])
    show ?thesis
      unfolding integrate_interval_def
      by (rule integrate_static_ode [where self = "interval_ODE mdl kk l k"])
         (simp_all add: interval_ODE_def f dfdx dfdu inv accept grow fuel V0
            interval_width_pos [OF kk] flip: n_def m_def)
  qed
  have "discretize_all lib fuel mdl kk [0..<kk - 1] l \<noteq> None"
    by (rule discretize_all_some) (simp add: int)
  then obtain l' where l': "linearize lib fuel mdl kk l = Some l'"
    by (auto simp add: linearize_def)
  have "affine_model_at l' k
          = (identity_mat n, zero_mat n m, zero_mat n m, zero_mat n 1, zero_mat n 1)"
    if k: "k < kk - 1" for k
  proof -
    from discretize_all_at [OF l' [unfolded linearize_def] _ _ sized k] k
    obtain V where V: "integrate_interval lib fuel mdl kk l k = Some V"
      and at: "affine_model_at l' k = affine_model_at (store_interval mdl l k V) k"
      by auto
    from V int [OF k] have "V = initial_V mdl (main_X l) k" by simp
    with at show ?thesis
      by (simp add: store_initial_V [OF X [unfolded n_def] k sized] n_def m_def)
  qed
  with l' show ?thesis by blast
qed

text \<open>
  C7.  For a model whose \<open>ode\<close> is the zero vector and whose two Jacobians are zero
  matrices at all arguments, the integration over any interval width \<open>d > 0\<close>, with any
  \<open>sigma\<close> and any controls, returns the state it started from; so the loop over the
  intervals returns, and for every interval the arrays hold \<open>A\<close> the identity and \<open>B\<close>,
  \<open>C\<close>, \<open>Sigma\<close>, \<open>z\<close> zero.  The integrator is any embedded Runge-Kutta scheme that
  accepts a step whose error estimate is zero and does not shrink the step after an
  accepted one; ten step attempts suffice.  The inverse returns a matrix of the static
  size, and the reference trajectory and the arrays have their static sizes.
\<close>

theorem static_dynamics_identity:
  fixes mdl :: "real Model"
  defines "n \<equiv> n_states mdl" and "m \<equiv> n_inputs mdl"
  assumes f: "\<forall>x u. ode mdl x u = zero_mat n 1"
    and dfdx: "\<forall>x u. state_jacobian mdl x u = zero_mat n n"
    and dfdu: "\<forall>x u. control_jacobian mdl x u = zero_mat n m"
    and inv: "\<forall>M. length (matrix_inverse lib M) = n"
    and accept: "\<forall>a b y d h. error_value (stepper lib) a b y d (zeros_like y) h \<le> 1"
    and grow: "\<forall>h e. 0 < h \<longrightarrow> h \<le> increase_step (stepper lib) h e"
    and fuel: "10 \<le> fuel" and kk: "2 \<le> kk"
    and X: "mat_dim n kk (main_X l)" and sized: "arrays_sized kk l"
  shows "(\<forall>d s u0 u1 V0. 0 < d \<longrightarrow> mat_dim n (n_V_states mdl) V0 \<longrightarrow>
            integrate_adaptive fuel (make_controlled (1 / 10 ^ 4) (1 / 10 ^ 4) (stepper lib))
              (DiscretizationODE_call (matrix_inverse lib)
                 \<lparr>u_t = u0, u_t1 = u1, sigma = s, dt = d, model = mdl\<rparr>)
              V0 0 d (d / 10) = Some V0)
       \<and> (\<exists>l'. linearize lib fuel mdl kk l = Some l'
             \<and> (\<forall>k<kk - 1. A_bar l' ! k = identity_mat n
                   \<and> B_bar l' ! k = zero_mat n m
                   \<and> C_bar l' ! k = zero_mat n m
                   \<and> Sigma_bar l' ! k = zero_mat n 1
                   \<and> z_bar l' ! k = zero_mat n 1))"
proof
  show "\<forall>d s u0 u1 V0. 0 < d \<longrightarrow> mat_dim n (n_V_states mdl) V0 \<longrightarrow>
            integrate_adaptive fuel (make_controlled (1 / 10 ^ 4) (1 / 10 ^ 4) (stepper lib))
              (DiscretizationODE_call (matrix_inverse lib)
                 \<lparr>u_t = u0, u_t1 = u1, sigma = s, dt = d, model = mdl\<rparr>)
              V0 0 d (d / 10) = Some V0"
  proof (intro allI impI)
    fix d s :: real and u0 u1 V0 :: "real matrix"
    assume d: "0 < d" and V0: "mat_dim n (n_V_states mdl) V0"
    show "integrate_adaptive fuel (make_controlled (1 / 10 ^ 4) (1 / 10 ^ 4) (stepper lib))
              (DiscretizationODE_call (matrix_inverse lib)
                 \<lparr>u_t = u0, u_t1 = u1, sigma = s, dt = d, model = mdl\<rparr>)
              V0 0 d (d / 10) = Some V0"
      by (rule integrate_static_ode)
         (use f dfdx dfdu inv accept grow fuel d V0 in \<open>simp_all add: n_def m_def\<close>)
  qed
next
  from linearize_static [of mdl lib fuel kk l] f dfdx dfdu inv accept grow fuel kk X sized
  obtain l' where l': "linearize lib fuel mdl kk l = Some l'"
    and at: "\<forall>k<kk - 1. affine_model_at l' k
                 = (identity_mat n, zero_mat n m, zero_mat n m, zero_mat n 1, zero_mat n 1)"
    unfolding n_def m_def by blast
  from at have "\<forall>k<kk - 1. A_bar l' ! k = identity_mat n
                   \<and> B_bar l' ! k = zero_mat n m
                   \<and> C_bar l' ! k = zero_mat n m
                   \<and> Sigma_bar l' ! k = zero_mat n 1
                   \<and> z_bar l' ! k = zero_mat n 1"
    by (simp add: affine_model_at_def)
  with l' show "\<exists>l'. linearize lib fuel mdl kk l = Some l'
             \<and> (\<forall>k<kk - 1. A_bar l' ! k = identity_mat n
                   \<and> B_bar l' ! k = zero_mat n m
                   \<and> C_bar l' ! k = zero_mat n m
                   \<and> Sigma_bar l' ! k = zero_mat n 1
                   \<and> z_bar l' ! k = zero_mat n 1)"
    by blast
qed


lemma fold_max_zero: "list_all (\<lambda>v. v = 0) vs \<Longrightarrow> fold max vs (0::real) = 0"
  by (induction vs) simp_all

lemma max_ratio_zero: "max_ratio a b y d (zeros_like y) h = 0"
proof -
  have zero: "e = 0" if "e \<in> set (concat (zeros_like y))" for e
    using that by (auto simp add: zeros_like_def)
  have "v = 0"
    if "v \<in> set (map (\<lambda>(e, v, d). \<bar>e\<bar> / (a + b * (\<bar>v\<bar> + \<bar>h\<bar> * \<bar>d\<bar>)))
         (zip (concat (zeros_like y)) (zip (concat y) (concat d))))" for v
  proof -
    from that obtain e p where
      mem: "(e, p) \<in> set (zip (concat (zeros_like y)) (zip (concat y) (concat d)))"
      and v: "v = (case (e, p) of (e, v, d) \<Rightarrow> \<bar>e\<bar> / (a + b * (\<bar>v\<bar> + \<bar>h\<bar> * \<bar>d\<bar>)))"
      by auto
    from mem have "e = 0" by (intro zero) (rule set_zip_leftD)
    with v show ?thesis by (cases p) simp
  qed
  then have "list_all (\<lambda>v. v = 0)
      (map (\<lambda>(e, v, d). \<bar>e\<bar> / (a + b * (\<bar>v\<bar> + \<bar>h\<bar> * \<bar>d\<bar>)))
         (zip (concat (zeros_like y)) (zip (concat y) (concat d))))"
    unfolding list_all_iff by blast
  then show ?thesis
    unfolding max_ratio_def by (rule fold_max_zero)
qed

theorem static_dynamics_identity_witness:
  "\<exists>l'. linearize scenario_library 10 (static_model 1 1) 2 scenario_locals = Some l'
      \<and> A_bar l' ! 0 = identity_mat 1 \<and> B_bar l' ! 0 = zero_mat 1 1 \<and> C_bar l' ! 0 = zero_mat 1 1
      \<and> Sigma_bar l' ! 0 = zero_mat 1 1 \<and> z_bar l' ! 0 = zero_mat 1 1"
proof -
  let ?mdl = "static_model 1 1"
  have n: "n_states ?mdl = 1" and m: "n_inputs ?mdl = 1"
    by (simp_all add: static_model_def)
  have f: "\<forall>x u. ode ?mdl x u = zero_mat (n_states ?mdl) 1"
    and dfdx: "\<forall>x u. state_jacobian ?mdl x u = zero_mat (n_states ?mdl) (n_states ?mdl)"
    and dfdu: "\<forall>x u. control_jacobian ?mdl x u = zero_mat (n_states ?mdl) (n_inputs ?mdl)"
    by (simp_all add: static_model_def)
  have inv: "\<forall>M. length (matrix_inverse scenario_library M) = n_states ?mdl"
    unfolding n by (simp add: scenario_library_def inverse_1x1_def)
  have accept: "\<forall>a b y d h. error_value (stepper scenario_library) a b y d (zeros_like y) h \<le> 1"
    by (simp add: scenario_library_def heun_euler_def max_ratio_zero)
  have grow: "\<forall>h e. 0 < h \<longrightarrow> h \<le> increase_step (stepper scenario_library) h e"
    by (simp add: scenario_library_def heun_euler_def)
  have fuel: "(10::nat) \<le> 10" and kk: "(2::nat) \<le> 2"
    by simp_all
  have X: "mat_dim (n_states ?mdl) 2 (main_X scenario_locals)"
    unfolding n by (simp add: scenario_locals_def mat_dim_def)
  have sized: "arrays_sized 2 scenario_locals"
    by (simp add: scenario_locals_def arrays_sized_def)
  from static_dynamics_identity [OF f dfdx dfdu inv accept grow fuel kk X sized, THEN conjunct2]
  show ?thesis
    unfolding n m by auto
qed

section \<open>The loop\<close>

lemma mat_dim_set_coeff: "mat_dim r c M \<Longrightarrow> mat_dim r c (set_coeff M i j v)"
  by (cases "i < length M")
     (auto simp add: mat_dim_def set_coeff_def list_all_length nth_list_update)

lemma coeff_set_coeff:
  "mat_dim r c M \<Longrightarrow> i < r \<Longrightarrow> j < c \<Longrightarrow>
     coeff (set_coeff M i j v) i' j' = (if i' = i \<and> j' = j then v else coeff M i' j')"
  by (auto simp add: mat_dim_def set_coeff_def coeff_def list_all_length nth_list_update)

lemma fill_column:
  assumes M: "mat_dim n kk M" and k: "k < kk" and r: "r \<le> n"
  shows "mat_dim n kk (fold (\<lambda>i M. set_coeff M i k (g i)) [0..<r] M)
       \<and> (\<forall>i j. coeff (fold (\<lambda>i M. set_coeff M i k (g i)) [0..<r] M) i j
                 = (if j = k \<and> i < r then g i else coeff M i j))"
  using r
proof (induction r)
  case 0
  then show ?case using M by simp
next
  case (Suc r)
  then have IH: "mat_dim n kk (fold (\<lambda>i M. set_coeff M i k (g i)) [0..<r] M)"
      "\<And>i j. coeff (fold (\<lambda>i M. set_coeff M i k (g i)) [0..<r] M) i j
                 = (if j = k \<and> i < r then g i else coeff M i j)"
    by simp_all
  from Suc.prems have r: "r < n" by simp
  show ?case
    using IH(1) by (auto simp add: mat_dim_set_coeff coeff_set_coeff [OF IH(1) r k] IH(2))
qed


lemma fill_all:
  assumes M: "mat_dim n kk M" and c: "c \<le> kk"
  shows "mat_dim n kk (fold (\<lambda>k M. fold (\<lambda>i M. set_coeff M i k (g i k)) [0..<n] M) [0..<c] M)
       \<and> (\<forall>i j. i < n \<longrightarrow>
             coeff (fold (\<lambda>k M. fold (\<lambda>i M. set_coeff M i k (g i k)) [0..<n] M) [0..<c] M) i j
               = (if j < c then g i j else coeff M i j))"
  using c
proof (induction c)
  case 0
  then show ?case using M by simp
next
  case (Suc c)
  let ?M = "fold (\<lambda>k M. fold (\<lambda>i M. set_coeff M i k (g i k)) [0..<n] M) [0..<c] M"
  from Suc have IH: "mat_dim n kk ?M"
      "\<And>i j. i < n \<Longrightarrow> coeff ?M i j = (if j < c then g i j else coeff M i j)"
    by simp_all
  from Suc.prems have c: "c < kk" by simp
  note col = fill_column [OF IH(1) c order_refl, of "\<lambda>i. g i c"]
  show ?case
    using col IH(2) by (auto simp add: less_Suc_eq)
qed

lemma fold_set_main_X:
  "fold (\<lambda>i l. l\<lparr>main_X := set_coeff (main_X l) i k (g i)\<rparr>) is l
     = l\<lparr>main_X := fold (\<lambda>i M. set_coeff M i k (g i)) is (main_X l)\<rparr>"
  by (induction "is" arbitrary: l) simp_all

lemma fold_set_main_U:
  "fold (\<lambda>i l. l\<lparr>main_U := set_coeff (main_U l) i k (g i)\<rparr>) is l
     = l\<lparr>main_U := fold (\<lambda>i M. set_coeff M i k (g i)) is (main_U l)\<rparr>"
  by (induction "is" arbitrary: l) simp_all

lemma fold_set_main_X_U:
  "fold (\<lambda>k l. l\<lparr>main_X := fold (\<lambda>i M. set_coeff M i k (gx i k)) ns (main_X l),
                main_U := fold (\<lambda>i M. set_coeff M i k (gu i k)) ms (main_U l)\<rparr>) ks l
     = l\<lparr>main_X := fold (\<lambda>k M. fold (\<lambda>i M. set_coeff M i k (gx i k)) ns M) ks (main_X l),
         main_U := fold (\<lambda>k M. fold (\<lambda>i M. set_coeff M i k (gu i k)) ms M) ks (main_U l)\<rparr>"
  by (induction ks arbitrary: l) simp_all

lemma read_solution_eq:
  "read_solution lib s mdl kk sol l =
     l\<lparr>main_X := fold (\<lambda>k M. fold (\<lambda>i M. set_coeff M i k (sol (X_indices lib s i k)))
                              [0..<n_states mdl] M) [0..<kk] (main_X l),
       main_U := fold (\<lambda>k M. fold (\<lambda>i M. set_coeff M i k (sol (U_indices lib s i k)))
                              [0..<n_inputs mdl] M) [0..<kk] (main_U l),
       main_sigma := sol (sigma_index lib s)\<rparr>"
  by (simp add: read_solution_def Let_def fold_set_main_X fold_set_main_U fold_set_main_X_U)

lemma read_solution_adopts:
  fixes lib :: library and s :: EcosWrapper and sol :: "nat \<Rightarrow> real"
  assumes X: "mat_dim (n_states mdl) kk (main_X l)" and U: "mat_dim (n_inputs mdl) kk (main_U l)"
  defines "l' \<equiv> read_solution lib s mdl kk sol l"
  shows "mat_dim (n_states mdl) kk (main_X l')" "mat_dim (n_inputs mdl) kk (main_U l')"
    "\<forall>i<n_states mdl. \<forall>k<kk. coeff (main_X l') i k = sol (X_indices lib s i k)"
    "\<forall>i<n_inputs mdl. \<forall>k<kk. coeff (main_U l') i k = sol (U_indices lib s i k)"
    "main_sigma l' = sol (sigma_index lib s)"
  using fill_all [OF X order_refl, of "\<lambda>i k. sol (X_indices lib s i k)"]
    fill_all [OF U order_refl, of "\<lambda>i k. sol (U_indices lib s i k)"]
  by (simp_all add: l'_def read_solution_eq)

lemma linearize_frame:
  assumes "linearize lib fuel mdl kk l = Some l'"
  shows "main_X l' = main_X l" "main_U l' = main_U l" "main_sigma l' = main_sigma l"
    "arrays_sized kk' l' = arrays_sized kk' l"
  using discretize_all_frame [OF assms [unfolded linearize_def], of kk' 0] by simp_all

lemma funpow_bind_None:
  fixes f :: "'a \<Rightarrow> 'a option"
  shows "((\<lambda>s. Option.bind s f) ^^ j) None = None"
  by (induction j) simp_all

lemma sc_loop_funpow:
  "sc_loop lib fuel mdl kk it st
     = ((\<lambda>s. Option.bind s (sc_iteration lib fuel mdl kk)) ^^ (iterations + 1 - it)) (Some st)"
proof (induction lib fuel mdl kk it st rule: sc_loop.induct)
  case (1 lib fuel mdl kk it st)
  let ?F = "\<lambda>s. Option.bind s (sc_iteration lib fuel mdl kk)"
  show ?case
  proof (cases "it < iterations + 1")
    case False
    then show ?thesis by (subst sc_loop.simps) simp
  next
    case True
    define j where "j = iterations + 1 - (it + 1)"
    with True have n: "iterations + 1 - it = Suc j" by simp
    have unfold: "(?F ^^ Suc j) (Some st) = (?F ^^ j) (sc_iteration lib fuel mdl kk st)"
      by (simp only: funpow_Suc_right o_apply Option.bind.simps)
    show ?thesis
    proof (cases "sc_iteration lib fuel mdl kk st")
      case None
      have "sc_loop lib fuel mdl kk it st = None"
        using None True by (subst sc_loop.simps) simp
      then show ?thesis
        unfolding n unfold None by (simp only: funpow_bind_None)
    next
      case (Some st')
      have "sc_loop lib fuel mdl kk it st = sc_loop lib fuel mdl kk (it + 1) st'"
        using Some True by (subst sc_loop.simps) simp
      also have "\<dots> = (?F ^^ j) (Some st')"
        unfolding j_def by (rule "1.IH" [OF True Some])
      finally show ?thesis
        unfolding n unfold Some .
    qed
  qed
qed

lemma sc_iteration_Some:
  assumes "sc_iteration lib fuel mdl kk st = Some st'"
  obtains l where "linearize lib fuel mdl kk (vars st) = Some l"
    and "solved_problem lib fuel mdl kk st = Some (refresh l (solver st))"
    and "st' = st\<lparr>vars := read_solution lib (solver st) mdl kk
                    (solve_problem lib (refresh l (solver st))) l\<rparr>"
  using assms
  by (auto simp add: sc_iteration_def solved_problem_def Let_def split: option.splits)

lemma sc_iteration_adopts:
  fixes mdl :: "real Model"
  assumes it: "sc_iteration lib fuel mdl kk st = Some st'"
    and X: "mat_dim (n_states mdl) kk (main_X (vars st))"
    and U: "mat_dim (n_inputs mdl) kk (main_U (vars st))"
  shows "\<exists>p. solved_problem lib fuel mdl kk st = Some p
           \<and> (\<forall>i<n_states mdl. \<forall>k<kk. coeff (main_X (vars st')) i k
                  = solve_problem lib p (X_indices lib (solver st) i k))
           \<and> (\<forall>i<n_inputs mdl. \<forall>k<kk. coeff (main_U (vars st')) i k
                  = solve_problem lib p (U_indices lib (solver st) i k))
           \<and> main_sigma (vars st') = solve_problem lib p (sigma_index lib (solver st))
           \<and> mat_dim (n_states mdl) kk (main_X (vars st'))
           \<and> mat_dim (n_inputs mdl) kk (main_U (vars st'))"
proof -
  from it obtain l where l: "linearize lib fuel mdl kk (vars st) = Some l"
    and p: "solved_problem lib fuel mdl kk st = Some (refresh l (solver st))"
    and st': "st' = st\<lparr>vars := read_solution lib (solver st) mdl kk
                    (solve_problem lib (refresh l (solver st))) l\<rparr>"
    by (rule sc_iteration_Some)
  have X': "mat_dim (n_states mdl) kk (main_X l)" and U': "mat_dim (n_inputs mdl) kk (main_U l)"
    using X U linearize_frame [OF l] by simp_all
  note r = read_solution_adopts [OF X' U', of lib "solver st"
      "solve_problem lib (refresh l (solver st))"]
  show ?thesis
    using p r by (simp add: st')
qed

text \<open>
  C6.  The loop runs the body ten times, whatever the states are: the program is the
  tenfold iteration of the body from the initial state (it has no other exit; it does
  not return when an integration does not).  Every run of the body that returns solves
  the problem once and leaves in \<open>X\<close>, \<open>U\<close> and \<open>sigma\<close> the values of the solution at
  the indices of these variables, for every entry, whatever the previous reference and
  whatever the solution is.
\<close>

theorem fixed_iterations_unconditional_adoption:
  fixes mdl :: "real Model"
  shows "iterations = 10
     \<and> main_with lib fuel mdl kk l0
         = ((\<lambda>s. Option.bind s (sc_iteration lib fuel mdl kk)) ^^ 10) (Some (main_init mdl kk l0))
     \<and> (\<forall>st st'. sc_iteration lib fuel mdl kk st = Some st'
           \<longrightarrow> mat_dim (n_states mdl) kk (main_X (vars st))
           \<longrightarrow> mat_dim (n_inputs mdl) kk (main_U (vars st))
           \<longrightarrow> (\<exists>p. solved_problem lib fuel mdl kk st = Some p
                 \<and> (\<forall>i<n_states mdl. \<forall>k<kk. coeff (main_X (vars st')) i k
                        = solve_problem lib p (X_indices lib (solver st) i k))
                 \<and> (\<forall>i<n_inputs mdl. \<forall>k<kk. coeff (main_U (vars st')) i k
                        = solve_problem lib p (U_indices lib (solver st) i k))
                 \<and> main_sigma (vars st') = solve_problem lib p (sigma_index lib (solver st))
                 \<and> mat_dim (n_states mdl) kk (main_X (vars st'))
                 \<and> mat_dim (n_inputs mdl) kk (main_U (vars st'))))"
proof (intro conjI allI impI)
  show "iterations = 10" by (simp add: iterations_def)
  show "main_with lib fuel mdl kk l0
         = ((\<lambda>s. Option.bind s (sc_iteration lib fuel mdl kk)) ^^ 10) (Some (main_init mdl kk l0))"
    unfolding main_with_def sc_loop_funpow by (simp add: iterations_def)
next
  fix st st'
  assume "sc_iteration lib fuel mdl kk st = Some st'"
    and "mat_dim (n_states mdl) kk (main_X (vars st))"
    and "mat_dim (n_inputs mdl) kk (main_U (vars st))"
  then show "\<exists>p. solved_problem lib fuel mdl kk st = Some p
                 \<and> (\<forall>i<n_states mdl. \<forall>k<kk. coeff (main_X (vars st')) i k
                        = solve_problem lib p (X_indices lib (solver st) i k))
                 \<and> (\<forall>i<n_inputs mdl. \<forall>k<kk. coeff (main_U (vars st')) i k
                        = solve_problem lib p (U_indices lib (solver st) i k))
                 \<and> main_sigma (vars st') = solve_problem lib p (sigma_index lib (solver st))
                 \<and> mat_dim (n_states mdl) kk (main_X (vars st'))
                 \<and> mat_dim (n_inputs mdl) kk (main_U (vars st'))"
    by (rule sc_iteration_adopts)
qed

lemma scenario_iteration:
  "\<exists>st'. sc_iteration scenario_library 4 scenario_model 2
           \<lparr>vars = scenario_locals, solver = solver_setup scenario_model 2\<rparr> = Some st'"
  by (simp add: sc_iteration_def scenario_linearize Let_def)

theorem fixed_iterations_unconditional_adoption_witness:
  "\<exists>st'. sc_iteration scenario_library 4 scenario_model 2
           \<lparr>vars = scenario_locals, solver = solver_setup scenario_model 2\<rparr> = Some st'
      \<and> coeff (main_X (vars st')) 0 1 = 2 \<and> coeff (main_U (vars st')) 0 0 = 2
      \<and> main_sigma (vars st') = 2"
proof -
  let ?st = "\<lparr>vars = scenario_locals, solver = solver_setup scenario_model 2\<rparr>"
  from scenario_iteration obtain st' where
    it: "sc_iteration scenario_library 4 scenario_model 2 ?st = Some st'" ..
  have X: "mat_dim (n_states (scenario_model :: real Model)) 2 (main_X (vars ?st))"
    and U: "mat_dim (n_inputs (scenario_model :: real Model)) 2 (main_U (vars ?st))"
    by (simp_all add: scenario_model_def scenario_locals_def mat_dim_def)
  have n: "n_states (scenario_model :: real Model) = 1" "n_inputs (scenario_model :: real Model) = 1"
    by (simp_all add: scenario_model_def)
  have sol: "solve_problem scenario_library p i = 2" for p i
    by (simp add: scenario_library_def)
  from fixed_iterations_unconditional_adoption [of scenario_library 4 scenario_model 2 scenario_locals,
      THEN conjunct2, THEN conjunct2, rule_format, OF it X U]
  have "coeff (main_X (vars st')) 0 1 = 2 \<and> coeff (main_U (vars st')) 0 0 = 2
      \<and> main_sigma (vars st') = 2"
    unfolding n sol by auto
  with it show ?thesis by blast
qed

section \<open>The structure of the problem\<close>

lemma expr_structure_refresh: "expr_structure (refresh_expr l e) = expr_structure e"
  by (simp add: expr_structure_def refresh_expr_def refresh_term_def comp_def)

lemma constraint_structure_refresh:
  "constraint_structure (refresh_constraint l c) = constraint_structure c"
  by (cases c) (simp_all add: expr_structure_refresh comp_def)

lemma problem_structure_refresh: "problem_structure (refresh l s) = problem_structure s"
  by (simp add: problem_structure_def refresh_def comp_def constraint_structure_refresh
      expr_structure_refresh)

lemma sc_iteration_solver:
  "sc_iteration lib fuel mdl kk st = Some st' \<Longrightarrow> solver st' = solver st"
  by (erule sc_iteration_Some) simp

lemma funpow_iteration_solver:
  "((\<lambda>s. Option.bind s (sc_iteration lib fuel mdl kk)) ^^ j) (Some st) = Some st'
     \<Longrightarrow> solver st' = solver st"
proof (induction j arbitrary: st')
  case 0
  then show ?case by simp
next
  case (Suc j)
  then obtain st1 where
    j: "((\<lambda>s. Option.bind s (sc_iteration lib fuel mdl kk)) ^^ j) (Some st) = Some st1"
    and it: "sc_iteration lib fuel mdl kk st1 = Some st'"
    by (auto simp add: bind_eq_Some_conv)
  from Suc.IH [OF j] sc_iteration_solver [OF it] show ?case by simp
qed

lemma tensor_variables_add_dynamics:
  "tensor_variables (add_dynamics_constraints n m kk s) = tensor_variables s"
proof -
  have inner: "tensor_variables (fold (\<lambda>r s. add_constraint (f r) s) rs s) = tensor_variables s"
    for f :: "nat \<Rightarrow> Constraint" and rs s
    by (induction rs arbitrary: s) (simp_all add: add_constraint_def)
  have "tensor_variables (fold (\<lambda>k s. fold (\<lambda>r s. add_constraint (f k r) s) rs s) ks s)
          = tensor_variables s" for f :: "nat \<Rightarrow> nat \<Rightarrow> Constraint" and rs ks s
    by (induction ks arbitrary: s) (simp_all add: inner)
  then show ?thesis by (simp add: add_dynamics_constraints_def)
qed

lemma costs_add_dynamics:
  "costs (add_dynamics_constraints n m kk s) = costs s"
proof -
  have inner: "costs (fold (\<lambda>r s. add_constraint (f r) s) rs s) = costs s"
    for f :: "nat \<Rightarrow> Constraint" and rs s
    by (induction rs arbitrary: s) (simp_all add: add_constraint_def)
  have "costs (fold (\<lambda>k s. fold (\<lambda>r s. add_constraint (f k r) s) rs s) ks s) = costs s"
    for f :: "nat \<Rightarrow> nat \<Rightarrow> Constraint" and rs ks s
    by (induction ks arbitrary: s) (simp_all add: inner)
  then show ?thesis by (simp add: add_dynamics_constraints_def)
qed

lemma tensor_variables_declare_problem:
  "tensor_variables (declare_problem n m kk)
     = [(''X'', [n, kk]), (''U'', [m, kk]), (''nu'', [n, kk - 1]), (''norm2_nu'', []),
        (''sigma'', []), (''Delta_sigma'', [])]"
  by (simp add: declare_problem_def Let_def add_constraint_def add_minimization_term_def
      create_tensor_variable_def tensor_variables_add_dynamics EcosWrapper_new_def)

lemma costs_declare_problem:
  "costs (declare_problem n m kk)
     = [times_var (Constant 1) (var ''sigma'' []),
        times_var (Constant weight_virtual_control) (var ''norm2_nu'' []),
        times_var (Constant weight_trust_region_sigma) (var ''Delta_sigma'' [])]"
  by (simp add: declare_problem_def Let_def add_constraint_def add_minimization_term_def
      create_tensor_variable_def costs_add_dynamics EcosWrapper_new_def)

lemma solved_problem_Some:
  assumes "solved_problem lib fuel mdl kk st = Some p"
  obtains l where "linearize lib fuel mdl kk (vars st) = Some l" and "p = refresh l (solver st)"
  using assms by (auto simp add: solved_problem_def)

lemma fold_append_step:
  "fold (\<lambda>c e. e @ f c) cs e = e @ concat (map f cs)"
  by (induction cs arbitrary: e) simp_all

lemma fold_plus_expr:
  "fold (\<lambda>c e. plus_expr e (f c)) cs e = e @ concat (map f cs)"
  unfolding plus_expr_def by (rule fold_append_step)

lemma virtual_control_vector_eq:
  "virtual_control_vector n kk
     = concat (map (\<lambda>k. map (\<lambda>row. [(Constant 1, Some (Variable ''nu'' [row, k]))]) [0..<n])
         [0..<kk - 1])"
proof -
  have inner: "fold (\<lambda>row v. v @ [g row]) rs v = v @ map g rs"
    for g :: "nat \<Rightarrow> AffineExpression" and rs v
    by (induction rs arbitrary: v) simp_all
  have outer: "fold (\<lambda>k v. fold (\<lambda>row v. v @ [g k row]) rs v) ks v
                 = v @ concat (map (\<lambda>k. map (g k) rs) ks)"
    for g :: "nat \<Rightarrow> nat \<Rightarrow> AffineExpression" and rs ks v
    by (induction ks arbitrary: v) (simp_all add: inner)
  show ?thesis
    unfolding virtual_control_vector_def outer
    by (simp add: times_var_def var_def)
qed

lemma dynamics_equality_eq:
  "dynamics_equality n m k row =
     EqualityConstraint
       ([(Constant (- 1), Some (Variable ''X'' [row, k + 1]))]
        @ map (\<lambda>c. (Pointer (A_bar_at k row c), Some (Variable ''X'' [c, k]))) [0..<n]
        @ map (\<lambda>c. (Pointer (B_bar_at k row c), Some (Variable ''U'' [c, k]))) [0..<m]
        @ map (\<lambda>c. (Pointer (C_bar_at k row c), Some (Variable ''U'' [c, k + 1]))) [0..<m]
        @ [(Pointer (Sigma_bar_at k row 0), Some (Variable ''sigma'' [])),
           (Pointer (z_bar_at k row 0), None),
           (Constant 1, Some (Variable ''nu'' [row, k]))])"
  unfolding dynamics_equality_def Let_def fold_plus_expr
  by (simp add: plus_expr_def times_var_def constant_term_def var_def param_def)

lemma refresh_dynamics_equality:
  "refresh_constraint l (dynamics_equality n m k row) =
     EqualityConstraint
       ([(Constant (- 1), Some (Variable ''X'' [row, k + 1]))]
        @ map (\<lambda>c. (Constant (coeff (A_bar l ! k) row c), Some (Variable ''X'' [c, k]))) [0..<n]
        @ map (\<lambda>c. (Constant (coeff (B_bar l ! k) row c), Some (Variable ''U'' [c, k]))) [0..<m]
        @ map (\<lambda>c. (Constant (coeff (C_bar l ! k) row c), Some (Variable ''U'' [c, k + 1])))
            [0..<m]
        @ [(Constant (coeff (Sigma_bar l ! k) row 0), Some (Variable ''sigma'' [])),
           (Constant (coeff (z_bar l ! k) row 0), None),
           (Constant 1, Some (Variable ''nu'' [row, k]))])"
  unfolding dynamics_equality_eq
  by (simp add: refresh_expr_def refresh_term_def comp_def)

lemma compiled_add_dynamics:
  "compiled (add_dynamics_constraints n m kk s) = compiled s"
proof -
  have inner: "compiled (fold (\<lambda>r s. add_constraint (f r) s) rs s) = compiled s"
    for f :: "nat \<Rightarrow> Constraint" and rs s
    by (induction rs arbitrary: s) (simp_all add: add_constraint_def)
  have "compiled (fold (\<lambda>k s. fold (\<lambda>r s. add_constraint (f k r) s) rs s) ks s) = compiled s"
    for f :: "nat \<Rightarrow> nat \<Rightarrow> Constraint" and rs ks s
    by (induction ks arbitrary: s) (simp_all add: inner)
  then show ?thesis by (simp add: add_dynamics_constraints_def)
qed

lemma refresh_sigma_trust_region:
  "refresh_constraint l sigma_trust_region =
     SecondOrderConeConstraint
       [[(Constant (- main_sigma l), Some (Variable ''sigma'' [])),
         (Constant (- 0.5), Some (Variable ''Delta_sigma'' [])),
         (Constant (0.5 + 0.5 * main_sigma l * main_sigma l), None)],
        [(Constant 1, Some (Variable ''sigma'' []))]]
       [(Constant (main_sigma l), Some (Variable ''sigma'' [])),
        (Constant 0.5, Some (Variable ''Delta_sigma'' [])),
        (Constant (0.5 - 0.5 * main_sigma l * main_sigma l), None)]"
  by (simp add: sigma_trust_region_def Let_def param_fn_def plus_expr_def times_var_def
      constant_term_def var_def refresh_expr_def refresh_term_def)

text \<open>
  C8.  The setup declares the six tensor variables \<open>X\<close>, \<open>U\<close>, \<open>nu\<close>, \<open>norm2_nu\<close>,
  \<open>sigma\<close>, \<open>Delta_sigma\<close>, the constraints and the three terms of the objective, lets
  the model add its own, and compiles the structure, once, before the loop: the problem
  is not compiled before the model's hook is called, and it is compiled afterwards.  The
  declared constraints are, in this order, one equality for every interval and every
  state row, the cone constraint of the virtual control over all entries of \<open>nu\<close>, and
  the cone constraint of the trust region of \<open>sigma\<close>.  The parameters of the equality of
  interval \<open>k\<close> and row \<open>row\<close> point to the entries of \<open>A_bar\<close>, \<open>B_bar\<close>, \<open>C_bar\<close>,
  \<open>Sigma_bar\<close> and \<open>z_bar\<close> of that interval and row: refreshed at the variables \<open>l\<close> of
  the program, they are the current values of these entries, and the refreshed
  coefficients of the trust region are computed from the current \<open>sigma\<close>.  After any
  number of runs of the body the solver is still the one the setup built: nothing is
  declared, added or removed in the loop.  The problem solved in a run is this solver
  with the parameters of its constraints and of its objective refreshed from the
  variables of the program after the discretization, and it has the variables and the
  structure of the solver of the setup: only the values of the parameters differ
  between the solves.
\<close>

theorem structure_fixed_before_loop:
  fixes mdl :: "real Model"
  shows "solver_setup mdl kk
           = compile_problem_structure
               (add_application_constraints mdl (declare_problem (n_states mdl) (n_inputs mdl) kk) kk)
     \<and> compiled (declare_problem n m kk) = False
     \<and> compiled (solver_setup mdl kk)
     \<and> tensor_variables (declare_problem n m kk)
         = [(''X'', [n, kk]), (''U'', [m, kk]), (''nu'', [n, kk - 1]), (''norm2_nu'', []),
            (''sigma'', []), (''Delta_sigma'', [])]
     \<and> constraints (declare_problem n m kk)
         = concat (map (\<lambda>k. map (dynamics_equality n m k) [0..<n]) [0..<kk - 1])
           @ [SecondOrderConeConstraint (virtual_control_vector n kk)
                [(Constant 1, Some (Variable ''norm2_nu'' []))],
              sigma_trust_region]
     \<and> dynamics_equality n m k row
         = EqualityConstraint
             ([(Constant (- 1), Some (Variable ''X'' [row, k + 1]))]
              @ map (\<lambda>c. (Pointer (A_bar_at k row c), Some (Variable ''X'' [c, k]))) [0..<n]
              @ map (\<lambda>c. (Pointer (B_bar_at k row c), Some (Variable ''U'' [c, k]))) [0..<m]
              @ map (\<lambda>c. (Pointer (C_bar_at k row c), Some (Variable ''U'' [c, k + 1]))) [0..<m]
              @ [(Pointer (Sigma_bar_at k row 0), Some (Variable ''sigma'' [])),
                 (Pointer (z_bar_at k row 0), None),
                 (Constant 1, Some (Variable ''nu'' [row, k]))])
     \<and> virtual_control_vector n kk
         = concat (map (\<lambda>k. map (\<lambda>row. [(Constant 1, Some (Variable ''nu'' [row, k]))]) [0..<n])
             [0..<kk - 1])
     \<and> refresh_constraint l (dynamics_equality n m k row)
         = EqualityConstraint
             ([(Constant (- 1), Some (Variable ''X'' [row, k + 1]))]
              @ map (\<lambda>c. (Constant (coeff (A_bar l ! k) row c), Some (Variable ''X'' [c, k])))
                  [0..<n]
              @ map (\<lambda>c. (Constant (coeff (B_bar l ! k) row c), Some (Variable ''U'' [c, k])))
                  [0..<m]
              @ map (\<lambda>c. (Constant (coeff (C_bar l ! k) row c), Some (Variable ''U'' [c, k + 1])))
                  [0..<m]
              @ [(Constant (coeff (Sigma_bar l ! k) row 0), Some (Variable ''sigma'' [])),
                 (Constant (coeff (z_bar l ! k) row 0), None),
                 (Constant 1, Some (Variable ''nu'' [row, k]))])
     \<and> refresh_constraint l sigma_trust_region
         = SecondOrderConeConstraint
             [[(Constant (- main_sigma l), Some (Variable ''sigma'' [])),
               (Constant (- 0.5), Some (Variable ''Delta_sigma'' [])),
               (Constant (0.5 + 0.5 * main_sigma l * main_sigma l), None)],
              [(Constant 1, Some (Variable ''sigma'' []))]]
             [(Constant (main_sigma l), Some (Variable ''sigma'' [])),
              (Constant 0.5, Some (Variable ''Delta_sigma'' [])),
              (Constant (0.5 - 0.5 * main_sigma l * main_sigma l), None)]
     \<and> costs (declare_problem n m kk)
         = [times_var (Constant 1) (var ''sigma'' []),
            times_var (Constant weight_virtual_control) (var ''norm2_nu'' []),
            times_var (Constant weight_trust_region_sigma) (var ''Delta_sigma'' [])]
     \<and> solver (main_init mdl kk l0) = solver_setup mdl kk
     \<and> (\<forall>j st. ((\<lambda>s. Option.bind s (sc_iteration lib fuel mdl kk)) ^^ j)
                   (Some (main_init mdl kk l0)) = Some st
            \<longrightarrow> solver st = solver_setup mdl kk
              \<and> (\<forall>p. solved_problem lib fuel mdl kk st = Some p
                    \<longrightarrow> (\<exists>l. linearize lib fuel mdl kk (vars st) = Some l
                            \<and> p = refresh l (solver_setup mdl kk)
                            \<and> constraints p
                                = map (refresh_constraint l) (constraints (solver_setup mdl kk))
                            \<and> costs p = map (refresh_expr l) (costs (solver_setup mdl kk)))
                      \<and> tensor_variables p = tensor_variables (solver_setup mdl kk)
                      \<and> problem_structure p = problem_structure (solver_setup mdl kk)))"
proof -
  have init: "solver (main_init mdl kk l0) = solver_setup mdl kk"
    by (simp add: main_init_def Let_def split: prod.splits)
  have loop: "solver st = solver_setup mdl kk
              \<and> (\<forall>p. solved_problem lib fuel mdl kk st = Some p
                    \<longrightarrow> (\<exists>l. linearize lib fuel mdl kk (vars st) = Some l
                            \<and> p = refresh l (solver_setup mdl kk)
                            \<and> constraints p
                                = map (refresh_constraint l) (constraints (solver_setup mdl kk))
                            \<and> costs p = map (refresh_expr l) (costs (solver_setup mdl kk)))
                      \<and> tensor_variables p = tensor_variables (solver_setup mdl kk)
                      \<and> problem_structure p = problem_structure (solver_setup mdl kk))"
    if "((\<lambda>s. Option.bind s (sc_iteration lib fuel mdl kk)) ^^ j)
                   (Some (main_init mdl kk l0)) = Some st" for j st
  proof -
    from funpow_iteration_solver [OF that] init
    have s: "solver st = solver_setup mdl kk" by simp
    have "(\<exists>l. linearize lib fuel mdl kk (vars st) = Some l
              \<and> p = refresh l (solver_setup mdl kk)
              \<and> constraints p = map (refresh_constraint l) (constraints (solver_setup mdl kk))
              \<and> costs p = map (refresh_expr l) (costs (solver_setup mdl kk)))
            \<and> tensor_variables p = tensor_variables (solver_setup mdl kk)
            \<and> problem_structure p = problem_structure (solver_setup mdl kk)"
      if "solved_problem lib fuel mdl kk st = Some p" for p
    proof -
      from that obtain l where l: "linearize lib fuel mdl kk (vars st) = Some l"
        and p: "p = refresh l (solver st)"
        by (rule solved_problem_Some)
      from p s have p': "p = refresh l (solver_setup mdl kk)"
        by simp
      have "constraints p = map (refresh_constraint l) (constraints (solver_setup mdl kk))"
        and "costs p = map (refresh_expr l) (costs (solver_setup mdl kk))"
        and "tensor_variables p = tensor_variables (solver_setup mdl kk)"
        unfolding p' by (simp_all add: refresh_def)
      moreover have "problem_structure p = problem_structure (solver_setup mdl kk)"
        unfolding p' by (rule problem_structure_refresh)
      ultimately show ?thesis
        using l p' by blast
    qed
    with s show ?thesis by blast
  qed
  have build: "solver_setup mdl kk
           = compile_problem_structure
               (add_application_constraints mdl (declare_problem (n_states mdl) (n_inputs mdl) kk) kk)"
    "compiled (solver_setup mdl kk)"
    by (simp_all add: solver_setup_def Let_def compile_problem_structure_def)
  have uncompiled: "compiled (declare_problem n m kk) = False"
    by (simp add: declare_problem_def Let_def add_constraint_def add_minimization_term_def
        create_tensor_variable_def compiled_add_dynamics EcosWrapper_new_def)
  have cs: "constraints (declare_problem n m kk)
         = concat (map (\<lambda>k. map (dynamics_equality n m k) [0..<n]) [0..<kk - 1])
           @ [SecondOrderConeConstraint (virtual_control_vector n kk)
                [(Constant 1, Some (Variable ''norm2_nu'' []))],
              sigma_trust_region]"
    by (simp add: constraints_declare_problem times_var_def var_def)
  from build uncompiled cs init loop show ?thesis
    unfolding tensor_variables_declare_problem costs_declare_problem
      refresh_dynamics_equality refresh_sigma_trust_region
    using dynamics_equality_eq [of n m k row] virtual_control_vector_eq [of n kk]
    by blast
qed

lemma static_scenario_linearize:
  assumes X: "mat_dim 1 2 (main_X l)" and sized: "arrays_sized 2 l"
  shows "\<exists>l'. linearize scenario_library 10 (static_model 1 1) 2 l = Some l'"
proof -
  have "\<exists>l'. linearize scenario_library 10 (static_model 1 1) 2 l = Some l'
           \<and> (\<forall>k<2 - 1. affine_model_at l' k
                 = (identity_mat (n_states (static_model 1 1)),
                    zero_mat (n_states (static_model 1 1)) (n_inputs (static_model 1 1)),
                    zero_mat (n_states (static_model 1 1)) (n_inputs (static_model 1 1)),
                    zero_mat (n_states (static_model 1 1)) 1,
                    zero_mat (n_states (static_model 1 1)) 1))"
    by (rule linearize_static)
       (use X sized in \<open>simp_all add: static_model_def scenario_library_def heun_euler_def
          max_ratio_zero inverse_1x1_def\<close>)
  then show ?thesis by blast
qed

lemma static_scenario_init:
  "mat_dim 1 2 (main_X (vars (main_init (static_model 1 1) 2 scenario_locals)))
   \<and> mat_dim 1 2 (main_U (vars (main_init (static_model 1 1) 2 scenario_locals)))
   \<and> arrays_sized 2 (vars (main_init (static_model 1 1) 2 scenario_locals))
   \<and> main_sigma (vars (main_init (static_model 1 1) 2 scenario_locals)) = 1"
  by (simp add: main_init_def static_model_def scenario_locals_def arrays_sized_def
      mat_dim_zero_mat)

lemma static_scenario_iteration:
  assumes X: "mat_dim 1 2 (main_X (vars st))" and sized: "arrays_sized 2 (vars st)"
  shows "\<exists>st' p. solved_problem scenario_library 10 (static_model 1 1) 2 st = Some p
             \<and> sc_iteration scenario_library 10 (static_model 1 1) 2 st = Some st'"
  using static_scenario_linearize [OF X sized]
  by (auto simp add: sc_iteration_def solved_problem_def Let_def)

lemma sc_iteration_arrays_sized:
  assumes "sc_iteration lib fuel mdl kk st = Some st'"
  shows "arrays_sized kk' (vars st') = arrays_sized kk' (vars st)"
proof -
  from assms obtain l where l: "linearize lib fuel mdl kk (vars st) = Some l"
    and st': "st' = st\<lparr>vars := read_solution lib (solver st) mdl kk
                    (solve_problem lib (refresh l (solver st))) l\<rparr>"
    by (rule sc_iteration_Some)
  have "arrays_sized kk' (vars st') = arrays_sized kk' l"
    by (simp add: st' read_solution_eq arrays_sized_def)
  with linearize_frame(4) [OF l] show ?thesis by simp
qed

theorem structure_fixed_before_loop_witness:
  "\<exists>st p. sc_iteration scenario_library 10 (static_model 1 1) 2
             (main_init (static_model 1 1) 2 scenario_locals) = Some st
        \<and> solver st = solver_setup (static_model 1 1) 2
        \<and> solved_problem scenario_library 10 (static_model 1 1) 2 st = Some p
        \<and> tensor_variables p
            = [(''X'', [1, 2]), (''U'', [1, 2]), (''nu'', [1, 1]), (''norm2_nu'', []),
               (''sigma'', []), (''Delta_sigma'', [])]
        \<and> map constraint_structure (constraints p)
            = [Inl [Some (Variable ''X'' [0, 1]), Some (Variable ''X'' [0, 0]),
                    Some (Variable ''U'' [0, 0]), Some (Variable ''U'' [0, 1]),
                    Some (Variable ''sigma'' []), None, Some (Variable ''nu'' [0, 0])],
               Inr ([[Some (Variable ''nu'' [0, 0])]], [Some (Variable ''norm2_nu'' [])]),
               Inr ([[Some (Variable ''sigma'' []), Some (Variable ''Delta_sigma'' []), None],
                     [Some (Variable ''sigma'' [])]],
                    [Some (Variable ''sigma'' []), Some (Variable ''Delta_sigma'' []), None])]
        \<and> problem_structure p = problem_structure (solver_setup (static_model 1 1) 2)"
proof -
  let ?mdl = "static_model 1 1"
  let ?init = "main_init ?mdl 2 scenario_locals"
  let ?F = "\<lambda>s. Option.bind s (sc_iteration scenario_library 10 ?mdl 2)"
  note init = static_scenario_init
  from static_scenario_iteration [of ?init] init obtain st where
    st: "sc_iteration scenario_library 10 ?mdl 2 ?init = Some st"
    by blast
  then have one: "(?F ^^ 1) (Some ?init) = Some st"
    by simp
  have n: "n_states ?mdl = 1" "n_inputs ?mdl = 1"
    by (simp_all add: static_model_def)
  have hook: "add_application_constraints ?mdl s 2 = s" for s
    by (simp add: static_model_def)
  from sc_iteration_adopts [OF st] init
  have X: "mat_dim 1 2 (main_X (vars st))"
    unfolding n by blast
  from sc_iteration_arrays_sized [OF st, of 2] init
  have sized: "arrays_sized 2 (vars st)"
    by simp
  from static_scenario_iteration [OF X sized] obtain p where
    p: "solved_problem scenario_library 10 ?mdl 2 st = Some p"
    by blast
  note th = structure_fixed_before_loop [where mdl = ?mdl and kk = 2 and n = 1 and m = 1
      and k = 0 and row = 0 and ?l0.0 = scenario_locals and lib = scenario_library and fuel = 10]
  from th [of scenario_locals] one p obtain l where
    s: "solver st = solver_setup ?mdl 2"
    and cs: "constraints p = map (refresh_constraint l) (constraints (solver_setup ?mdl 2))"
    and tv: "tensor_variables p = tensor_variables (solver_setup ?mdl 2)"
    and ps: "problem_structure p = problem_structure (solver_setup ?mdl 2)"
    by blast
  have "solver_setup ?mdl 2
          = compile_problem_structure
              (add_application_constraints ?mdl
                 (declare_problem (n_states ?mdl) (n_inputs ?mdl) 2) 2)"
    using th [of l] by blast
  then have su: "solver_setup ?mdl 2 = compile_problem_structure (declare_problem 1 1 2)"
    unfolding n hook .
  have tv0: "tensor_variables (declare_problem 1 1 2)
         = [(''X'', [1, 2]), (''U'', [1, 2]), (''nu'', [1, 2 - 1]), (''norm2_nu'', []),
            (''sigma'', []), (''Delta_sigma'', [])]"
    using th [of l] by blast
  have tv': "tensor_variables p
            = [(''X'', [1, 2]), (''U'', [1, 2]), (''nu'', [1, 1]), (''norm2_nu'', []),
               (''sigma'', []), (''Delta_sigma'', [])]"
    unfolding tv su using tv0 by (simp add: compile_problem_structure_def)
  have d: "refresh_constraint l (dynamics_equality 1 1 0 0)
         = EqualityConstraint
             ([(Constant (- 1), Some (Variable ''X'' [0, 0 + 1]))]
              @ map (\<lambda>c. (Constant (coeff (A_bar l ! 0) 0 c), Some (Variable ''X'' [c, 0])))
                  [0..<1]
              @ map (\<lambda>c. (Constant (coeff (B_bar l ! 0) 0 c), Some (Variable ''U'' [c, 0])))
                  [0..<1]
              @ map (\<lambda>c. (Constant (coeff (C_bar l ! 0) 0 c), Some (Variable ''U'' [c, 0 + 1])))
                  [0..<1]
              @ [(Constant (coeff (Sigma_bar l ! 0) 0 0), Some (Variable ''sigma'' [])),
                 (Constant (coeff (z_bar l ! 0) 0 0), None),
                 (Constant 1, Some (Variable ''nu'' [0, 0]))])"
    using th [of l] by blast
  have t: "refresh_constraint l sigma_trust_region
         = SecondOrderConeConstraint
             [[(Constant (- main_sigma l), Some (Variable ''sigma'' [])),
               (Constant (- 0.5), Some (Variable ''Delta_sigma'' [])),
               (Constant (0.5 + 0.5 * main_sigma l * main_sigma l), None)],
              [(Constant 1, Some (Variable ''sigma'' []))]]
             [(Constant (main_sigma l), Some (Variable ''sigma'' [])),
              (Constant 0.5, Some (Variable ''Delta_sigma'' [])),
              (Constant (0.5 - 0.5 * main_sigma l * main_sigma l), None)]"
    using th [of l] by blast
  have v: "virtual_control_vector 1 2
         = concat (map (\<lambda>k. map (\<lambda>row. [(Constant 1, Some (Variable ''nu'' [row, k]))]) [0..<1])
             [0..<2 - 1])"
    using th [of l] by blast
  have c: "constraints (declare_problem 1 1 2)
         = concat (map (\<lambda>k. map (dynamics_equality 1 1 k) [0..<1]) [0..<2 - 1])
           @ [SecondOrderConeConstraint (virtual_control_vector 1 2)
                [(Constant 1, Some (Variable ''norm2_nu'' []))],
              sigma_trust_region]"
    using th [of l] by blast
  have cs': "map constraint_structure (constraints p)
            = [Inl [Some (Variable ''X'' [0, 1]), Some (Variable ''X'' [0, 0]),
                    Some (Variable ''U'' [0, 0]), Some (Variable ''U'' [0, 1]),
                    Some (Variable ''sigma'' []), None, Some (Variable ''nu'' [0, 0])],
               Inr ([[Some (Variable ''nu'' [0, 0])]], [Some (Variable ''norm2_nu'' [])]),
               Inr ([[Some (Variable ''sigma'' []), Some (Variable ''Delta_sigma'' []), None],
                     [Some (Variable ''sigma'' [])]],
                    [Some (Variable ''sigma'' []), Some (Variable ''Delta_sigma'' []), None])]"
    unfolding cs su using c d t v
    by (simp add: compile_problem_structure_def expr_structure_def refresh_expr_def
        refresh_term_def)
  show ?thesis
    by (rule exI [of _ st], rule exI [of _ p], intro conjI st s p tv' cs' ps)
qed


section \<open>The reference of the time trust region\<close>

lemma sigma_trust_region_declared:
  "sigma_trust_region \<in> set (constraints (declare_problem n m kk))"
  by (simp add: constraints_declare_problem)

lemma solved_problem_sigma:
  assumes "solved_problem lib fuel mdl kk st = Some p"
  shows "\<exists>l. p = refresh l (solver st) \<and> main_sigma l = main_sigma (vars st)"
proof -
  from assms obtain l where l: "linearize lib fuel mdl kk (vars st) = Some l"
    and p: "p = refresh l (solver st)"
    by (rule solved_problem_Some)
  from linearize_frame(3) [OF l] p show ?thesis by blast
qed

lemma sc_iteration_sigma:
  assumes "sc_iteration lib fuel mdl kk st = Some st'"
  shows "\<exists>p. solved_problem lib fuel mdl kk st = Some p
           \<and> main_sigma (vars st') = solve_problem lib p (sigma_index lib (solver st))"
proof -
  from assms obtain l where l: "linearize lib fuel mdl kk (vars st) = Some l"
    and p: "solved_problem lib fuel mdl kk st = Some (refresh l (solver st))"
    and st': "st' = st\<lparr>vars := read_solution lib (solver st) mdl kk
                    (solve_problem lib (refresh l (solver st))) l\<rparr>"
    by (rule sc_iteration_Some)
  show ?thesis
    using p by (simp add: st' read_solution_eq)
qed

text \<open>
  C9.  When the loop starts, \<open>sigma\<close> is the model's \<open>total_time_guess\<close>.  The trust-region
  constraint that the setup declares holds four callbacks on \<open>sigma\<close>; in the problem
  that a run of the body solves, its coefficients are \<open>- sigma0\<close>,
  \<open>0.5 + 0.5 sigma0\<^sup>2\<close>, \<open>sigma0\<close> and \<open>0.5 - 0.5 sigma0\<^sup>2\<close> with \<open>sigma0\<close> the value of
  \<open>sigma\<close> at the start of that run; and a run leaves in \<open>sigma\<close> the value of the
  solution it has just computed, which is therefore the reference of the next run.
\<close>

theorem trust_region_reads_current_sigma:
  fixes mdl :: "real Model"
  shows "main_sigma (vars (main_init mdl kk l0)) = total_time_guess mdl
     \<and> sigma_trust_region \<in> set (constraints (declare_problem n m kk))
     \<and> (\<forall>st p. solved_problem lib fuel mdl kk st = Some p
           \<longrightarrow> sigma_trust_region \<in> set (constraints (solver st))
           \<longrightarrow> SecondOrderConeConstraint
                 [[(Constant (- main_sigma (vars st)), Some (Variable ''sigma'' [])),
                   (Constant (- 0.5), Some (Variable ''Delta_sigma'' [])),
                   (Constant (0.5 + 0.5 * main_sigma (vars st) * main_sigma (vars st)), None)],
                  [(Constant 1, Some (Variable ''sigma'' []))]]
                 [(Constant (main_sigma (vars st)), Some (Variable ''sigma'' [])),
                  (Constant 0.5, Some (Variable ''Delta_sigma'' [])),
                  (Constant (0.5 - 0.5 * main_sigma (vars st) * main_sigma (vars st)), None)]
               \<in> set (constraints p))
     \<and> (\<forall>st st'. sc_iteration lib fuel mdl kk st = Some st'
           \<longrightarrow> (\<exists>p. solved_problem lib fuel mdl kk st = Some p
                 \<and> main_sigma (vars st') = solve_problem lib p (sigma_index lib (solver st))))"
proof (intro conjI allI impI)
  show "main_sigma (vars (main_init mdl kk l0)) = total_time_guess mdl"
    by (simp add: main_init_def Let_def split: prod.splits)
  show "sigma_trust_region \<in> set (constraints (declare_problem n m kk))"
    by (rule sigma_trust_region_declared)
next
  fix st p
  assume p: "solved_problem lib fuel mdl kk st = Some p"
    and mem: "sigma_trust_region \<in> set (constraints (solver st))"
  from solved_problem_sigma [OF p] obtain l where
    l: "p = refresh l (solver st)" and s: "main_sigma l = main_sigma (vars st)"
    by blast
  from mem have "refresh_constraint l sigma_trust_region \<in> set (constraints p)"
    by (simp add: l refresh_def)
  then show "SecondOrderConeConstraint
                 [[(Constant (- main_sigma (vars st)), Some (Variable ''sigma'' [])),
                   (Constant (- 0.5), Some (Variable ''Delta_sigma'' [])),
                   (Constant (0.5 + 0.5 * main_sigma (vars st) * main_sigma (vars st)), None)],
                  [(Constant 1, Some (Variable ''sigma'' []))]]
                 [(Constant (main_sigma (vars st)), Some (Variable ''sigma'' [])),
                  (Constant 0.5, Some (Variable ''Delta_sigma'' [])),
                  (Constant (0.5 - 0.5 * main_sigma (vars st) * main_sigma (vars st)), None)]
               \<in> set (constraints p)"
    by (simp only: refresh_sigma_trust_region s)
next
  fix st st'
  assume "sc_iteration lib fuel mdl kk st = Some st'"
  then show "\<exists>p. solved_problem lib fuel mdl kk st = Some p
                 \<and> main_sigma (vars st') = solve_problem lib p (sigma_index lib (solver st))"
    by (rule sc_iteration_sigma)
qed


lemma static_scenario_setup:
  "sigma_trust_region \<in> set (constraints (solver_setup (static_model 1 1) 2))"
  by (simp add: solver_setup_def Let_def static_model_def compile_problem_structure_def
      constraints_declare_problem)

theorem trust_region_reads_current_sigma_witness:
  "\<exists>st p. sc_iteration scenario_library 10 (static_model 1 1) 2
             (main_init (static_model 1 1) 2 scenario_locals) = Some st
        \<and> main_sigma (vars (main_init (static_model 1 1) 2 scenario_locals)) = 1
        \<and> main_sigma (vars st) = 2
        \<and> solved_problem scenario_library 10 (static_model 1 1) 2 st = Some p
        \<and> SecondOrderConeConstraint
             [[(Constant (- 2), Some (Variable ''sigma'' [])),
               (Constant (- 0.5), Some (Variable ''Delta_sigma'' [])),
               (Constant (0.5 + 0.5 * 2 * 2), None)],
              [(Constant 1, Some (Variable ''sigma'' []))]]
             [(Constant 2, Some (Variable ''sigma'' [])),
              (Constant 0.5, Some (Variable ''Delta_sigma'' [])),
              (Constant (0.5 - 0.5 * 2 * 2), None)]
           \<in> set (constraints p)"
proof -
  let ?mdl = "static_model 1 1"
  let ?init = "main_init ?mdl 2 scenario_locals"
  note init = static_scenario_init
  note th = trust_region_reads_current_sigma [of ?mdl 2 scenario_locals 1 1 scenario_library 10]
  from static_scenario_iteration [of ?init] init obtain st where
    st: "sc_iteration scenario_library 10 ?mdl 2 ?init = Some st"
    by blast
  have n: "n_states ?mdl = 1" "n_inputs ?mdl = 1"
    by (simp_all add: static_model_def)
  from th st obtain p0 where
    "main_sigma (vars st) = solve_problem scenario_library p0 (sigma_index scenario_library (solver ?init))"
    by blast
  then have sigma: "main_sigma (vars st) = 2"
    by (simp add: scenario_library_def)
  from sc_iteration_adopts [OF st] init
  have X: "mat_dim 1 2 (main_X (vars st))"
    unfolding n by blast
  from sc_iteration_arrays_sized [OF st, of 2] init
  have sized: "arrays_sized 2 (vars st)"
    by simp
  from static_scenario_iteration [OF X sized] obtain p where
    p: "solved_problem scenario_library 10 ?mdl 2 st = Some p"
    by blast
  have "solver st = solver_setup ?mdl 2"
    using sc_iteration_solver [OF st] by (simp add: main_init_def Let_def split: prod.splits)
  then have mem: "sigma_trust_region \<in> set (constraints (solver st))"
    by (simp only: static_scenario_setup)
  from th [THEN conjunct2, THEN conjunct2, THEN conjunct1, rule_format, OF p mem]
  have cone: "SecondOrderConeConstraint
             [[(Constant (- 2), Some (Variable ''sigma'' [])),
               (Constant (- 0.5), Some (Variable ''Delta_sigma'' [])),
               (Constant (0.5 + 0.5 * 2 * 2), None)],
              [(Constant 1, Some (Variable ''sigma'' []))]]
             [(Constant 2, Some (Variable ''sigma'' [])),
              (Constant 0.5, Some (Variable ''Delta_sigma'' [])),
              (Constant (0.5 - 0.5 * 2 * 2), None)]
           \<in> set (constraints p)"
    unfolding sigma .
  from st init sigma p cone show ?thesis by blast
qed

end
